theory Spec2Isabelle
  imports Main "HOL-Library.Word"
begin

unbundle bit_operations_syntax

section \<open>Python values used by the client\<close>

text \<open>
  A Python \<open>str\<close> is a sequence of code points, \<open>bytes\<close> a sequence of octets.
  \<open>lit\<close> turns an ASCII literal of the source into its code points.
\<close>

type_synonym pystr = "nat list"
type_synonym u8 = "8 word"
type_synonym u32 = "32 word"
type_synonym bytes = "u8 list"

definition lit :: "string \<Rightarrow> pystr" where
  "lit s = map of_char s"

text \<open>What \<open>requests\<close> raises when the transport itself fails.\<close>

datatype request_failure = ConnectionRefused | ConnectTimeout | NameResolutionFailed

text \<open>The exceptions that the modelled code can raise.\<close>

datatype error =
    RequestException request_failure
  | JSONDecodeError
  | KeyError
  | TypeError
  | UnicodeEncodeError
  | AttributeError

text \<open>\<open>sep.join(xs)\<close> on a list of strings.\<close>

fun py_join :: "pystr \<Rightarrow> pystr list \<Rightarrow> pystr" where
  "py_join sep [] = []"
| "py_join sep [x] = x"
| "py_join sep (x # y # r) = x @ sep @ py_join sep (y # r)"

subsection \<open>\<open>str.encode()\<close>: strict UTF-8\<close>

text \<open>
  One code point. The surrogates U+D800..U+DFFF make \<open>encode\<close> raise
  \<open>UnicodeEncodeError\<close>. A number from 0x110000 on is no code point and no \<open>str\<close>
  holds one; it is rejected in the same way.
\<close>

definition utf8_char :: "nat \<Rightarrow> error + bytes" where
  "utf8_char c =
     (if c < 0x80 then Inr [word_of_nat c]
      else if c < 0x800 then
        Inr [word_of_nat (0xC0 + c div 64), word_of_nat (0x80 + c mod 64)]
      else if 0xD800 \<le> c \<and> c \<le> 0xDFFF then Inl UnicodeEncodeError
      else if c < 0x10000 then
        Inr [word_of_nat (0xE0 + c div 4096), word_of_nat (0x80 + c div 64 mod 64),
             word_of_nat (0x80 + c mod 64)]
      else if c < 0x110000 then
        Inr [word_of_nat (0xF0 + c div 262144), word_of_nat (0x80 + c div 4096 mod 64),
             word_of_nat (0x80 + c div 64 mod 64), word_of_nat (0x80 + c mod 64)]
      else Inl UnicodeEncodeError)"

fun str_encode :: "pystr \<Rightarrow> error + bytes" where
  "str_encode [] = Inr []"
| "str_encode (c # cs) =
     (case utf8_char c of
        Inl e \<Rightarrow> Inl e
      | Inr b \<Rightarrow> (case str_encode cs of Inl e \<Rightarrow> Inl e | Inr r \<Rightarrow> Inr (b @ r)))"

subsection \<open>Hexadecimal text\<close>

definition hex_digit_lower :: "nat \<Rightarrow> nat" where
  "hex_digit_lower n = (if n < 10 then 48 + n else 87 + n)"

definition hex_digit_upper :: "nat \<Rightarrow> nat" where
  "hex_digit_upper n = (if n < 10 then 48 + n else 55 + n)"

text \<open>\<open>bytes.hex()\<close>, which is what \<open>hexdigest()\<close> and \<open>secrets.token_hex\<close> return.\<close>

definition hexlify :: "bytes \<Rightarrow> pystr" where
  "hexlify bs = concat (map (\<lambda>b. [hex_digit_lower (unat b div 16), hex_digit_lower (unat b mod 16)]) bs)"

text \<open>
  \<open>str.upper()\<close>. The source calls it on the outputs of \<open>hexdigest()\<close> and
  \<open>token_hex\<close> only; on ASCII text it maps \<open>a..z\<close> to \<open>A..Z\<close> and keeps the rest.
\<close>

definition ascii_upper :: "nat \<Rightarrow> nat" where
  "ascii_upper c = (if 97 \<le> c \<and> c \<le> 122 then c - 32 else c)"

definition str_upper :: "pystr \<Rightarrow> pystr" where
  "str_upper s = map ascii_upper s"

text \<open>The uppercase hexadecimal encoding of a byte string, two digits a byte.\<close>

definition hex_upper :: "bytes \<Rightarrow> pystr" where
  "hex_upper bs = concat (map (\<lambda>b. [hex_digit_upper (unat b div 16), hex_digit_upper (unat b mod 16)]) bs)"

subsection \<open>\<open>hashlib.sha256\<close>\<close>

definition rotr :: "nat \<Rightarrow> u32 \<Rightarrow> u32" where
  "rotr n x = drop_bit n x OR push_bit (32 - n) x"

definition sha_ch :: "u32 \<Rightarrow> u32 \<Rightarrow> u32 \<Rightarrow> u32" where
  "sha_ch x y z = (x AND y) XOR (NOT x AND z)"

definition sha_maj :: "u32 \<Rightarrow> u32 \<Rightarrow> u32 \<Rightarrow> u32" where
  "sha_maj x y z = (x AND y) XOR (x AND z) XOR (y AND z)"

definition big_sigma0 :: "u32 \<Rightarrow> u32" where
  "big_sigma0 x = rotr 2 x XOR rotr 13 x XOR rotr 22 x"

definition big_sigma1 :: "u32 \<Rightarrow> u32" where
  "big_sigma1 x = rotr 6 x XOR rotr 11 x XOR rotr 25 x"

definition small_sigma0 :: "u32 \<Rightarrow> u32" where
  "small_sigma0 x = rotr 7 x XOR rotr 18 x XOR drop_bit 3 x"

definition small_sigma1 :: "u32 \<Rightarrow> u32" where
  "small_sigma1 x = rotr 17 x XOR rotr 19 x XOR drop_bit 10 x"

definition sha256_k :: "u32 list" where
  "sha256_k =
    [0x428A2F98, 0x71374491, 0xB5C0FBCF, 0xE9B5DBA5, 0x3956C25B, 0x59F111F1, 0x923F82A4, 0xAB1C5ED5,
     0xD807AA98, 0x12835B01, 0x243185BE, 0x550C7DC3, 0x72BE5D74, 0x80DEB1FE, 0x9BDC06A7, 0xC19BF174,
     0xE49B69C1, 0xEFBE4786, 0x0FC19DC6, 0x240CA1CC, 0x2DE92C6F, 0x4A7484AA, 0x5CB0A9DC, 0x76F988DA,
     0x983E5152, 0xA831C66D, 0xB00327C8, 0xBF597FC7, 0xC6E00BF3, 0xD5A79147, 0x06CA6351, 0x14292967,
     0x27B70A85, 0x2E1B2138, 0x4D2C6DFC, 0x53380D13, 0x650A7354, 0x766A0ABB, 0x81C2C92E, 0x92722C85,
     0xA2BFE8A1, 0xA81A664B, 0xC24B8B70, 0xC76C51A3, 0xD192E819, 0xD6990624, 0xF40E3585, 0x106AA070,
     0x19A4C116, 0x1E376C08, 0x2748774C, 0x34B0BCB5, 0x391C0CB3, 0x4ED8AA4A, 0x5B9CCA4F, 0x682E6FF3,
     0x748F82EE, 0x78A5636F, 0x84C87814, 0x8CC70208, 0x90BEFFFA, 0xA4506CEB, 0xBEF9A3F7, 0xC67178F2]"

definition sha256_h0 :: "u32 list" where
  "sha256_h0 =
    [0x6A09E667, 0xBB67AE85, 0x3C6EF372, 0xA54FF53A, 0x510E527F, 0x9B05688C, 0x1F83D9AB, 0x5BE0CD19]"

text \<open>Four bytes as a big-endian word, and back.\<close>

definition be32 :: "u8 \<Rightarrow> u8 \<Rightarrow> u8 \<Rightarrow> u8 \<Rightarrow> u32" where
  "be32 a b c d = push_bit 24 (ucast a) OR push_bit 16 (ucast b) OR push_bit 8 (ucast c) OR ucast d"

definition be32_bytes :: "u32 \<Rightarrow> bytes" where
  "be32_bytes w = [ucast (drop_bit 24 w), ucast (drop_bit 16 w), ucast (drop_bit 8 w), ucast w]"

fun be_words :: "bytes \<Rightarrow> u32 list" where
  "be_words (a # b # c # d # r) = be32 a b c d # be_words r"
| "be_words _ = []"

text \<open>
  Padding: the byte 0x80, zero bytes up to 56 modulo 64, and the message length in bits
  as a 64-bit big-endian number.
\<close>

definition sha256_pad :: "bytes \<Rightarrow> bytes" where
  "sha256_pad m =
     (let l = length m;
          z = (64 - (l + 9) mod 64) mod 64;
          bits :: 64 word = word_of_nat (8 * l)
      in m @ [0x80] @ replicate z 0 @ map (\<lambda>i. ucast (drop_bit (8 * i) bits)) [7, 6, 5, 4, 3, 2, 1, 0])"

fun chunks :: "nat \<Rightarrow> 'a list \<Rightarrow> nat \<Rightarrow> 'a list list" where
  "chunks 0 xs n = []"
| "chunks (Suc k) xs n = take n xs # chunks k (drop n xs) n"

text \<open>The message schedule, built newest word first.\<close>

fun schedule :: "nat \<Rightarrow> u32 list \<Rightarrow> u32 list" where
  "schedule 0 ws = ws"
| "schedule (Suc k) ws =
     schedule k ((small_sigma1 (ws ! 1) + ws ! 6 + small_sigma0 (ws ! 14) + ws ! 15) # ws)"

fun sha_round :: "u32 list \<Rightarrow> u32 \<times> u32 \<Rightarrow> u32 list" where
  "sha_round [a, b, c, d, e, f, g, h] (k, w) =
     (let t1 = h + big_sigma1 e + sha_ch e f g + k + w;
          t2 = big_sigma0 a + sha_maj a b c
      in [t1 + t2, a, b, c, d + t1, e, f, g])"
| "sha_round s _ = s"

definition compress :: "u32 list \<Rightarrow> bytes \<Rightarrow> u32 list" where
  "compress hs block =
     (let ws = rev (schedule 48 (rev (be_words block)))
      in map2 (+) hs (foldl sha_round hs (zip sha256_k ws)))"

definition sha256 :: "bytes \<Rightarrow> bytes" where
  "sha256 m =
     (let p = sha256_pad m
      in concat (map be32_bytes (foldl compress sha256_h0 (chunks (length p div 64) p 64))))"

definition hexdigest :: "bytes \<Rightarrow> pystr" where
  "hexdigest m = hexlify (sha256 m)"

subsection \<open>\<open>binascii.crc32\<close>\<close>

text \<open>
  The CRC-32 of zlib: reflected polynomial 0xEDB88320, the register complemented on
  entry and on exit, so that the second argument is the checksum of what came before.
\<close>

definition crc32_bit :: "u32 \<Rightarrow> u32" where
  "crc32_bit c = (if bit c 0 then drop_bit 1 c XOR 0xEDB88320 else drop_bit 1 c)"

definition crc32_byte :: "u32 \<Rightarrow> u8 \<Rightarrow> u32" where
  "crc32_byte c b = (crc32_bit ^^ 8) (c XOR ucast b)"

definition crc32 :: "bytes \<Rightarrow> u32 \<Rightarrow> u32" where
  "crc32 data v = foldl crc32_byte (v XOR 0xFFFFFFFF) data XOR 0xFFFFFFFF"

subsection \<open>\<open>urllib.parse.urlencode\<close>\<close>

text \<open>A query value: the source's example passes strings and integers.\<close>

datatype pyval = VStr pystr | VInt int

fun dec_digits :: "nat \<Rightarrow> pystr" where
  "dec_digits n = (if n < 10 then [48 + n] else dec_digits (n div 10) @ [48 + n mod 10])"

fun py_str :: "pyval \<Rightarrow> pystr" where
  "py_str (VStr s) = s"
| "py_str (VInt i) = (if i < 0 then 45 # dec_digits (nat (- i)) else dec_digits (nat i))"

text \<open>
  The bytes that \<open>quote\<close> never escapes: letters, digits and \<open>_.-~\<close> (Python 3.7 and
  later). \<open>urlencode\<close> quotes keys and values with \<open>quote_plus\<close> and no further safe
  characters: a space becomes \<open>+\<close>, any other byte \<open>%XX\<close> in uppercase.
\<close>

definition always_safe :: "u8 \<Rightarrow> bool" where
  "always_safe b =
     (let n = unat b
      in (65 \<le> n \<and> n \<le> 90) \<or> (97 \<le> n \<and> n \<le> 122) \<or> (48 \<le> n \<and> n \<le> 57)
         \<or> n = 95 \<or> n = 46 \<or> n = 45 \<or> n = 126)"

definition quote_plus_byte :: "u8 \<Rightarrow> pystr" where
  "quote_plus_byte b =
     (if always_safe b then [unat b]
      else if b = 32 then [43]
      else [37, hex_digit_upper (unat b div 16), hex_digit_upper (unat b mod 16)])"

definition quote_plus :: "pystr \<Rightarrow> error + pystr" where
  "quote_plus s =
     (case str_encode s of Inl e \<Rightarrow> Inl e | Inr bs \<Rightarrow> Inr (concat (map quote_plus_byte bs)))"

text \<open>A \<open>dict\<close> with string keys, in insertion order.\<close>

type_synonym pydict = "(pystr \<times> pyval) list"

fun urlencode_items :: "pydict \<Rightarrow> error + pystr list" where
  "urlencode_items [] = Inr []"
| "urlencode_items ((k, v) # r) =
     (case quote_plus k of
        Inl e \<Rightarrow> Inl e
      | Inr qk \<Rightarrow>
         (case quote_plus (py_str v) of
            Inl e \<Rightarrow> Inl e
          | Inr qv \<Rightarrow>
             (case urlencode_items r of
                Inl e \<Rightarrow> Inl e
              | Inr l \<Rightarrow> Inr ((qk @ lit ''='' @ qv) # l))))"

definition urlencode :: "pydict \<Rightarrow> error + pystr" where
  "urlencode query =
     (case urlencode_items query of Inl e \<Rightarrow> Inl e | Inr l \<Rightarrow> Inr (py_join (lit ''&'') l))"

text \<open>\<open>d[k] = v\<close>: an existing key keeps its place and takes the new value, a new key goes last.\<close>

fun dict_setitem :: "pydict \<Rightarrow> pystr \<Rightarrow> pyval \<Rightarrow> pydict" where
  "dict_setitem [] k v = [(k, v)]"
| "dict_setitem ((k', v') # r) k v =
     (if k' = k then (k, v) # r else (k', v') # dict_setitem r k v)"

definition dict_get :: "pydict \<Rightarrow> pystr \<Rightarrow> pyval option" where
  "dict_get d k = map_of d k"

subsection \<open>The parsed body of a response\<close>

datatype json =
    JNull
  | JBool bool
  | JNumber int
  | JString pystr
  | JArray "json list"
  | JObject "(pystr \<times> json) list"

text \<open>
  \<open>j['result']\<close> on what \<open>resp.json()\<close> returned. Parsing keeps the last of several
  equal keys; a missing key raises \<open>KeyError\<close>, anything that is not an object raises
  \<open>TypeError\<close>.
\<close>

fun getitem_result :: "json \<Rightarrow> error + json" where
  "getitem_result (JObject kvs) =
     (case map_of (rev kvs) (lit ''result'') of None \<Rightarrow> Inl KeyError | Some v \<Rightarrow> Inr v)"
| "getitem_result _ = Inl TypeError"

text \<open>
  A response of the transport: its status and what \<open>.json()\<close> does on it
  (the parsed body, or \<open>JSONDecodeError\<close>).
\<close>

record response =
  status_code :: int
  json_body :: "error + json"

definition json_result :: "response \<Rightarrow> error + json" where
  "json_result resp = (case json_body resp of Inl e \<Rightarrow> Inl e | Inr j \<Rightarrow> getitem_result j)"

text \<open>\<open>requests.get\<close>: a response, or the failure the transport raises.\<close>

type_synonym transport = "pystr \<Rightarrow> request_failure + response"

section \<open>The session\<close>

text \<open>
  Modelled from the spec: the class \<open>Session\<close> (module \<open>session\<close>) is not among the
  sources. The spec gives it the identifier that the handshake returned and the secret
  seed, "the same hashed-password value submitted at login", and has it expose the
  identifier as hexadecimal text and the seed as the initial value of the checksum.
  The client reads the attributes \<open>id_hex\<close> and \<open>private_salt_hash\<close>. How the
  identifier is rendered and how the hash text becomes a 32-bit seed is not said, so both
  conversions are parameters of the constructor.
\<close>

record Session =
  sessionId :: json
  secretSeed :: pystr
  id_hex :: pystr
  private_salt_hash :: u32

definition Session_init :: "(json \<Rightarrow> pystr) \<Rightarrow> (pystr \<Rightarrow> u32) \<Rightarrow> json \<Rightarrow> pystr \<Rightarrow> Session" where
  "Session_init render_id seed_of result password_hash =
     \<lparr>sessionId = result, secretSeed = password_hash,
      id_hex = render_id result, private_salt_hash = seed_of password_hash\<rparr>"

text \<open>
  Modelled from the spec: \<open>to_hex8_str\<close> (module \<open>utils_duh\<close>) is not among the sources.
  The spec: a 32-bit unsigned value as exactly 8 hexadecimal digits, uppercase, padded on
  the left with \<open>0\<close>.
\<close>

fun hex_digits :: "nat \<Rightarrow> nat \<Rightarrow> pystr" where
  "hex_digits 0 n = []"
| "hex_digits (Suc k) n = hex_digits k (n div 16) @ [hex_digit_upper (n mod 16)]"

definition to_hex8_str :: "u32 \<Rightarrow> pystr" where
  "to_hex8_str w = hex_digits 8 (unat w)"

section \<open>The client\<close>

text \<open>The attributes of an \<open>AutheticatedHTTPClient\<close>, and its \<open>__init__\<close>.\<close>

record client =
  host :: pystr
  port :: pystr
  root :: pystr
  base_url :: pystr
  session :: "Session option"

definition init_client :: "pystr \<Rightarrow> pystr \<Rightarrow> pystr \<Rightarrow> client" where
  "init_client h p r =
     \<lparr>host = h, port = p, root = r,
      base_url = lit ''http://'' @ h @ lit '':'' @ p,
      session = None\<rparr>"

subsection \<open>login\<close>

definition server_nonce_url :: "client \<Rightarrow> pystr \<Rightarrow> pystr" where
  "server_nonce_url c user = base_url c @ lit ''/'' @ root c @ lit ''/Auth?Username='' @ user"

definition get_server_nonce :: "transport \<Rightarrow> client \<Rightarrow> pystr \<Rightarrow> error + json" where
  "get_server_nonce http_get c user =
     (case http_get (server_nonce_url c user) of
        Inl f \<Rightarrow> Inl (RequestException f)
      | Inr resp \<Rightarrow> json_result resp)"

text \<open>\<open>secrets.token_hex(32).upper()\<close>, on the 32 bytes drawn from the system's generator.\<close>

definition generate_client_nonce :: "bytes \<Rightarrow> pystr" where
  "generate_client_nonce token_bytes = str_upper (hexlify token_bytes)"

text \<open>
  The value of \<open>sha256password\<close>. \<open>''.join\<close> raises \<open>TypeError\<close> on a nonce that is
  not a string.
\<close>

definition sha256password :: "pystr \<Rightarrow> json \<Rightarrow> pystr \<Rightarrow> pystr \<Rightarrow> pystr \<Rightarrow> error + pystr" where
  "sha256password r server_nonce client_nonce user password_hash =
     (case server_nonce of
        JString sn \<Rightarrow>
          (case str_encode (py_join [] [r, sn, client_nonce, user, password_hash]) of
             Inl e \<Rightarrow> Inl e
           | Inr b \<Rightarrow> Inr (str_upper (hexdigest b)))
      | _ \<Rightarrow> Inl TypeError)"

definition login_url :: "client \<Rightarrow> pystr \<Rightarrow> pystr \<Rightarrow> pystr \<Rightarrow> pystr" where
  "login_url c user pw client_nonce =
     base_url c @ lit ''/'' @ root c @ lit ''/Auth?Username='' @ user
       @ lit ''&Password='' @ pw @ lit ''&ClientNonce='' @ client_nonce"

text \<open>
  \<open>login\<close> returns what the call returns or raises, the client afterwards, and the URLs
  it has requested, in order.
\<close>

definition login ::
  "(json \<Rightarrow> pystr) \<Rightarrow> (pystr \<Rightarrow> u32) \<Rightarrow> transport \<Rightarrow> bytes \<Rightarrow> client \<Rightarrow> pystr \<Rightarrow> pystr
     \<Rightarrow> (error + Session option) \<times> client \<times> pystr list" where
  "login render_id seed_of http_get token_bytes c user password_hash =
     (case get_server_nonce http_get c user of
        Inl e \<Rightarrow> (Inl e, c, [server_nonce_url c user])
      | Inr server_nonce \<Rightarrow>
          (let client_nonce = generate_client_nonce token_bytes
           in case sha256password (root c) server_nonce client_nonce user password_hash of
                Inl e \<Rightarrow> (Inl e, c, [server_nonce_url c user])
              | Inr pw \<Rightarrow>
                  (let url = login_url c user pw client_nonce
                   in case http_get url of
                        Inl f \<Rightarrow> (Inl (RequestException f), c, [server_nonce_url c user, url])
                      | Inr resp \<Rightarrow>
                          if status_code resp = 200 then
                            (case json_result resp of
                               Inl e \<Rightarrow> (Inl e, c, [server_nonce_url c user, url])
                             | Inr result \<Rightarrow>
                                 (let s = Session_init render_id seed_of result password_hash
                                  in (Inr (Some s), c\<lparr>session := Some s\<rparr>,
                                      [server_nonce_url c user, url])))
                          else (Inr None, c, [server_nonce_url c user, url]))))"

subsection \<open>add\_session\_signature\<close>

definition url_without_sesssion_signature :: "client \<Rightarrow> pystr \<Rightarrow> pydict \<Rightarrow> error + pystr" where
  "url_without_sesssion_signature c method parameters =
     (if parameters \<noteq> [] then
        (case urlencode parameters of
           Inl e \<Rightarrow> Inl e
         | Inr q \<Rightarrow> Inr (py_join (lit ''/'') [root c, py_join (lit ''?'') [method, q]]))
      else Inr (py_join (lit ''/'') [root c, method]))"

text \<open>The two chained calls of \<open>binascii.crc32\<close>.\<close>

definition signature_crc :: "u32 \<Rightarrow> bytes \<Rightarrow> bytes \<Rightarrow> u32" where
  "signature_crc salt nonce_bytes url_bytes =
     (let crc = crc32 nonce_bytes salt;
          crc = crc32 url_bytes crc
      in crc)"

text \<open>
  \<open>tick\<close> is what \<open>self.session.get_tick_count()\<close> returns at this call (modelled from
  the spec as a 32-bit unsigned reading of the clock). The result is what the call
  returns or raises, and the caller's dictionary afterwards.
\<close>

definition add_session_signature ::
  "client \<Rightarrow> u32 \<Rightarrow> pystr \<Rightarrow> pydict \<Rightarrow> (error + pystr) \<times> pydict" where
  "add_session_signature c tick method parameters =
     (case url_without_sesssion_signature c method parameters of
        Inl e \<Rightarrow> (Inl e, parameters)
      | Inr url0 \<Rightarrow>
          (case session c of
             None \<Rightarrow> (Inl AttributeError, parameters)
           | Some s \<Rightarrow>
               (let nonce = to_hex8_str (drop_bit 8 tick)
                in case str_encode nonce of
                     Inl e \<Rightarrow> (Inl e, parameters)
                   | Inr nb \<Rightarrow>
                       (case str_encode url0 of
                          Inl e \<Rightarrow> (Inl e, parameters)
                        | Inr ub \<Rightarrow>
                            (let crc = signature_crc (private_salt_hash s) nb ub;
                                 parameters' = dict_setitem parameters (lit ''session_signature'')
                                    (VStr (py_join [] [id_hex s, nonce, to_hex8_str crc]))
                             in case urlencode parameters' of
                                  Inl e \<Rightarrow> (Inl e, parameters')
                                | Inr q \<Rightarrow>
                                    (Inr (py_join (lit ''/'') [root c, py_join (lit ''?'') [method, q]]),
                                     parameters'))))))"

text \<open>
  The checksum chain in the spec's words: the first segment is checksummed from the
  seed, each later one from the result before it.
\<close>

definition chain :: "u32 \<Rightarrow> bytes list \<Rightarrow> u32" where
  "chain seed segments = foldl (\<lambda>v seg. crc32 seg v) seed segments"

section \<open>A scripted service for worked examples\<close>

text \<open>
  The transport answers the challenge request with one response and the request that
  carries the credentials (the one with an \<open>&\<close> in it) with another, or fails there.
\<close>

definition scripted_transport :: "response \<Rightarrow> request_failure + response \<Rightarrow> transport" where
  "scripted_transport challenge answer url = (if 38 \<in> set url then answer else Inr challenge)"

definition refusing_transport :: transport where
  "refusing_transport url = Inl ConnectionRefused"

definition demo_client :: client where
  "demo_client = init_client (lit ''localhost'') (lit ''888'') (lit ''root'')"

definition demo_challenge :: response where
  "demo_challenge =
     \<lparr>status_code = 200, json_body = Inr (JObject [(lit ''result'', JString (lit ''AAAAAAAA''))])\<rparr>"

definition demo_accept :: response where
  "demo_accept =
     \<lparr>status_code = 200, json_body = Inr (JObject [(lit ''result'', JString (lit ''0012D687''))])\<rparr>"

definition demo_reject :: response where
  "demo_reject = \<lparr>status_code = 403, json_body = Inl JSONDecodeError\<rparr>"

definition demo_no_result :: response where
  "demo_no_result = \<lparr>status_code = 200, json_body = Inr (JObject [])\<rparr>"

definition demo_token :: bytes where
  "demo_token =
     [0xBB, 0xBB, 0xBB, 0xBB, 0xBB, 0xBB, 0xBB, 0xBB, 0xBB, 0xBB, 0xBB, 0xBB, 0xBB, 0xBB, 0xBB, 0xBB,
      0xBB, 0xBB, 0xBB, 0xBB, 0xBB, 0xBB, 0xBB, 0xBB, 0xBB, 0xBB, 0xBB, 0xBB, 0xBB, 0xBB, 0xBB, 0xBB]"

definition demo_user :: pystr where
  "demo_user = lit ''admin''"

definition demo_hash :: pystr where
  "demo_hash = lit ''ba7816bf8f01cfea414140de5dae2223b00361a396177a9cb410ff61f20015ad''"

definition demo_login_bytes :: bytes where
  "demo_login_bytes = map word_of_nat
     (lit ''root'' @ lit ''AAAAAAAA''
      @ lit ''BBBBBBBBBBBBBBBBBBBBBBBBBBBBBBBBBBBBBBBBBBBBBBBBBBBBBBBBBBBBBBBB''
      @ lit ''admin''
      @ lit ''ba7816bf8f01cfea414140de5dae2223b00361a396177a9cb410ff61f20015ad'')"

definition demo_render_id :: "json \<Rightarrow> pystr" where
  "demo_render_id j = (case j of JString s \<Rightarrow> s | _ \<Rightarrow> [])"

definition demo_seed_of :: "pystr \<Rightarrow> u32" where
  "demo_seed_of s = word_of_nat (sum_list s)"

definition demo_session :: Session where
  "demo_session = Session_init demo_render_id demo_seed_of (JString (lit ''0012D687'')) demo_hash"

definition demo_logged_in :: client where
  "demo_logged_in = demo_client\<lparr>session := Some demo_session\<rparr>"

definition demo_parameters :: pydict where
  "demo_parameters = [(lit ''param1'', VInt 1)]"

definition demo_signed_parameters :: pydict where
  "demo_signed_parameters = [(lit ''session_signature'', VStr (lit ''stale''))]"

section \<open>Checks of the library models\<close>

lemma sha256_abc:
  "hexdigest [0x61, 0x62, 0x63] =
     lit ''ba7816bf8f01cfea414140de5dae2223b00361a396177a9cb410ff61f20015ad''"
  by code_simp

lemma funpow8: "(f ^^ 8) x = f (f (f (f (f (f (f (f x)))))))"
  by (simp add: eval_nat_numeral)

lemmas crc32_eval = crc32_def crc32_byte_def crc32_bit_def funpow8

lemma crc32_check_value: "crc32 [0x31, 0x32, 0x33, 0x34, 0x35, 0x36, 0x37, 0x38, 0x39] 0 = 0xCBF43926"
  by (simp add: crc32_eval)

section \<open>Strings, digests and checksums\<close>

lemma str_encode_append:
  "str_encode (a @ b) =
     (case str_encode a of
        Inl e \<Rightarrow> Inl e
      | Inr x \<Rightarrow> (case str_encode b of Inl e \<Rightarrow> Inl e | Inr y \<Rightarrow> Inr (x @ y)))"
  by (induction a) (auto split: sum.splits)

lemma str_encode_ascii:
  "\<forall>c \<in> set s. c < 128 \<Longrightarrow> str_encode s = Inr (map word_of_nat s)"
  by (induction s) (simp_all add: utf8_char_def)

lemma ascii_upper_hex_digit:
  "n < 16 \<Longrightarrow> ascii_upper (hex_digit_lower n) = hex_digit_upper n"
  by (simp add: ascii_upper_def hex_digit_lower_def hex_digit_upper_def)

lemma str_upper_hexlify: "str_upper (hexlify bs) = hex_upper bs"
proof (induction bs)
  case Nil
  show ?case by (simp add: str_upper_def hexlify_def hex_upper_def)
next
  case (Cons b bs)
  have "unat b < 256"
    using unsigned_less [of b, where ?'a = nat] by simp
  then have hi: "unat b div 16 < 16" by simp
  have lo: "unat b mod 16 < 16" by simp
  from Cons show ?case
    using ascii_upper_hex_digit [OF hi] ascii_upper_hex_digit [OF lo]
    by (simp add: str_upper_def hexlify_def hex_upper_def)
qed

lemma hex_digits_ascii: "\<forall>c \<in> set (hex_digits k n). c < 128"
  by (induction k arbitrary: n) (auto simp: hex_digit_upper_def)

lemma length_hex_digits: "length (hex_digits k n) = k"
  by (induction k arbitrary: n) simp_all

lemma length_to_hex8_str: "length (to_hex8_str w) = 8"
  by (simp add: to_hex8_str_def length_hex_digits)

lemma str_encode_to_hex8_str:
  "str_encode (to_hex8_str w) = Inr (map word_of_nat (to_hex8_str w))"
  by (simp add: to_hex8_str_def str_encode_ascii hex_digits_ascii)

lemma hex_digit_upper_inj:
  "a < 16 \<Longrightarrow> b < 16 \<Longrightarrow> hex_digit_upper a = hex_digit_upper b \<Longrightarrow> a = b"
  by (simp add: hex_digit_upper_def split: if_splits)

lemma hex_digits_inj:
  "hex_digits k n = hex_digits k m \<Longrightarrow> n mod 16 ^ k = m mod 16 ^ k"
proof (induction k arbitrary: n m)
  case 0
  show ?case by simp
next
  case (Suc k)
  from Suc.prems have hi: "hex_digits k (n div 16) = hex_digits k (m div 16)"
    and lo: "hex_digit_upper (n mod 16) = hex_digit_upper (m mod 16)"
    by (simp_all add: length_hex_digits)
  have lo': "n mod 16 = m mod 16"
    by (rule hex_digit_upper_inj [OF _ _ lo]) simp_all
  from Suc.IH [OF hi] have "n div 16 mod 16 ^ k = m div 16 mod 16 ^ k" .
  with lo' show ?case
    by (simp add: mod_mult2_eq)
qed

lemma to_hex8_str_inj: "to_hex8_str v = to_hex8_str w \<Longrightarrow> v = w"
proof -
  assume "to_hex8_str v = to_hex8_str w"
  then have "unat v mod 16 ^ 8 = unat w mod 16 ^ 8"
    unfolding to_hex8_str_def by (rule hex_digits_inj)
  moreover have "unat v < 16 ^ 8" "unat w < 16 ^ 8"
    using unsigned_less [of v, where ?'a = nat] unsigned_less [of w, where ?'a = nat] by simp_all
  ultimately have "unat v = unat w" by simp
  then show "v = w" by (simp add: word_unat_eq_iff)
qed

lemma xor_twice: "(x XOR m) XOR m = x" for x :: u32
  by (simp add: xor.assoc)

lemma crc32_append: "crc32 (a @ b) v = crc32 b (crc32 a v)"
  unfolding crc32_def foldl_append xor_twice ..

section \<open>Dictionaries\<close>

lemma dict_get_setitem:
  "dict_get (dict_setitem d k v) k' = (if k' = k then Some v else dict_get d k')"
  by (induction d) (auto simp: dict_get_def)

lemma keys_dict_setitem:
  "map fst (dict_setitem d k v) = (if k \<in> fst ` set d then map fst d else map fst d @ [k])"
proof (induction d)
  case Nil
  show ?case by simp
next
  case (Cons p d)
  then show ?case by (cases p) auto
qed

section \<open>What login and signing compute\<close>

lemma sha256password_eq:
  "sha256password r (JString sn) cn u ph =
     (case str_encode r of Inl e \<Rightarrow> Inl e | Inr b1 \<Rightarrow>
       (case str_encode sn of Inl e \<Rightarrow> Inl e | Inr b2 \<Rightarrow>
         (case str_encode cn of Inl e \<Rightarrow> Inl e | Inr b3 \<Rightarrow>
           (case str_encode u of Inl e \<Rightarrow> Inl e | Inr b4 \<Rightarrow>
             (case str_encode ph of Inl e \<Rightarrow> Inl e | Inr b5 \<Rightarrow>
                Inr (hex_upper (sha256 (b1 @ b2 @ b3 @ b4 @ b5))))))))"
  by (simp add: sha256password_def str_encode_append hexdigest_def str_upper_hexlify
      split: sum.splits)

lemma login_two_requests:
  assumes "login render_id seed_of http_get token_bytes c user password_hash = (res, c', [u1, u2])"
  shows "\<exists>nonce pw. get_server_nonce http_get c user = Inr nonce
           \<and> sha256password (root c) nonce (generate_client_nonce token_bytes) user password_hash = Inr pw
           \<and> u1 = server_nonce_url c user
           \<and> u2 = login_url c user pw (generate_client_nonce token_bytes)"
  using assms by (auto simp: login_def Let_def split: sum.splits if_splits)

lemma login_after_handshake:
  assumes "get_server_nonce http_get c user = Inr nonce"
    and "sha256password (root c) nonce (generate_client_nonce token_bytes) user password_hash = Inr pw"
    and "http_get (login_url c user pw (generate_client_nonce token_bytes)) = Inr resp"
  shows "login render_id seed_of http_get token_bytes c user password_hash =
     (let urls = [server_nonce_url c user, login_url c user pw (generate_client_nonce token_bytes)]
      in if status_code resp = 200 then
           (case json_result resp of
              Inl e \<Rightarrow> (Inl e, c, urls)
            | Inr result \<Rightarrow>
                (Inr (Some (Session_init render_id seed_of result password_hash)),
                 c\<lparr>session := Some (Session_init render_id seed_of result password_hash)\<rparr>, urls))
         else (Inr None, c, urls))"
  using assms by (simp add: login_def Let_def split: sum.splits)

lemma add_session_signature_eq:
  assumes "session c = Some s"
  shows "add_session_signature c tick method ps =
     (case url_without_sesssion_signature c method ps of
        Inl e \<Rightarrow> (Inl e, ps)
      | Inr url0 \<Rightarrow>
          (case str_encode url0 of
             Inl e \<Rightarrow> (Inl e, ps)
           | Inr ub \<Rightarrow>
               (let nonce = to_hex8_str (drop_bit 8 tick);
                    crc = signature_crc (private_salt_hash s) (map word_of_nat nonce) ub;
                    ps' = dict_setitem ps (lit ''session_signature'')
                            (VStr (id_hex s @ nonce @ to_hex8_str crc))
                in case urlencode ps' of
                     Inl e \<Rightarrow> (Inl e, ps')
                   | Inr q \<Rightarrow> (Inr (root c @ lit ''/'' @ method @ lit ''?'' @ q), ps'))))"
  using assms
  by (simp add: add_session_signature_def str_encode_to_hex8_str Let_def split: sum.splits)

lemma add_session_signature_no_session:
  assumes "session c = None"
  shows "\<exists>e. add_session_signature c tick method ps = (Inl e, ps)"
  using assms by (simp add: add_session_signature_def split: sum.splits)

lemma add_session_signature_success:
  assumes "add_session_signature c tick method ps = (Inr url, ps')"
  shows "\<exists>s url0 ub q.
           session c = Some s
         \<and> url_without_sesssion_signature c method ps = Inr url0
         \<and> str_encode url0 = Inr ub
         \<and> ps' = dict_setitem ps (lit ''session_signature'')
                   (VStr (id_hex s @ to_hex8_str (drop_bit 8 tick)
                          @ to_hex8_str (signature_crc (private_salt_hash s)
                               (map word_of_nat (to_hex8_str (drop_bit 8 tick))) ub)))
         \<and> urlencode ps' = Inr q
         \<and> url = root c @ lit ''/'' @ method @ lit ''?'' @ q"
proof (cases "session c")
  case None
  from add_session_signature_no_session [OF this, of tick "method" ps] assms
  show ?thesis by auto
next
  case (Some s)
  from assms show ?thesis
    unfolding add_session_signature_eq [OF Some]
    by (auto simp: Some Let_def split: sum.splits)
qed

lemma signature_crc_eq: "signature_crc salt nb ub = crc32 ub (crc32 nb salt)"
  by (simp add: signature_crc_def)

lemma sign_eval:
  assumes "session c = Some s"
    and "url_without_sesssion_signature c method ps = Inr p"
    and "str_encode p = Inr ub"
    and "to_hex8_str (drop_bit 8 tick) = n"
    and "signature_crc (private_salt_hash s) (map word_of_nat n) ub = crc"
    and "to_hex8_str crc = h"
    and "dict_setitem ps (lit ''session_signature'') (VStr (id_hex s @ n @ h)) = ps'"
    and "urlencode ps' = Inr q"
  shows "add_session_signature c tick method ps = (Inr (root c @ lit ''/'' @ method @ lit ''?'' @ q), ps')"
  using assms by (simp add: add_session_signature_eq Let_def)

section \<open>When signing returns\<close>

lemma quote_plus_byte_ascii: "\<forall>c \<in> set (quote_plus_byte b). c < 128"
proof -
  have "unat b < 256"
    using unsigned_less [of b, where ?'a = nat] by simp
  then have "unat b div 16 < 16" by simp
  then show ?thesis
    by (auto simp: quote_plus_byte_def always_safe_def Let_def hex_digit_upper_def)
qed

lemma quote_plus_ascii: "quote_plus s = Inr x \<Longrightarrow> \<forall>c \<in> set x. c < 128"
  using quote_plus_byte_ascii by (auto simp: quote_plus_def split: sum.splits)

lemma py_join_ascii:
  "\<forall>c \<in> set sep. c < 128 \<Longrightarrow> \<forall>x \<in> set xs. \<forall>c \<in> set x. c < 128
     \<Longrightarrow> \<forall>c \<in> set (py_join sep xs). c < 128"
  by (induction sep xs rule: py_join.induct) auto

lemma urlencode_items_ascii:
  "urlencode_items ps = Inr l \<Longrightarrow> \<forall>x \<in> set l. \<forall>c \<in> set x. c < 128"
proof (induction ps arbitrary: l)
  case Nil
  then show ?case by simp
next
  case (Cons p ps)
  obtain k v where p: "p = (k, v)" by (cases p)
  from Cons.prems obtain qk qv r where
    "quote_plus k = Inr qk" "quote_plus (py_str v) = Inr qv" "urlencode_items ps = Inr r"
    "l = (qk @ lit ''='' @ qv) # r"
    by (auto simp: p split: sum.splits)
  then show ?case
    using Cons.IH [of r] quote_plus_ascii [of k qk] quote_plus_ascii [of "py_str v" qv]
    by (auto simp: lit_def)
qed

lemma urlencode_ascii: "urlencode ps = Inr q \<Longrightarrow> \<forall>c \<in> set q. c < 128"
proof -
  assume "urlencode ps = Inr q"
  then obtain l where l: "urlencode_items ps = Inr l" and q: "q = py_join (lit ''&'') l"
    by (auto simp: urlencode_def split: sum.splits)
  from urlencode_items_ascii [OF l] show ?thesis
    unfolding q by (intro py_join_ascii) (auto simp: lit_def)
qed

lemma urlencode_items_setitem:
  assumes "urlencode_items ps = Inr l" and "quote_plus k = Inr qk" and "quote_plus (py_str v) = Inr qv"
  shows "\<exists>l'. urlencode_items (dict_setitem ps k v) = Inr l'"
  using assms
proof (induction ps arbitrary: l)
  case Nil
  then show ?case by simp
next
  case (Cons p ps)
  obtain k' v' where p: "p = (k', v')" by (cases p)
  from Cons.prems(1) obtain r where r: "urlencode_items ps = Inr r"
    by (auto simp: p split: sum.splits)
  from Cons.IH [OF r Cons.prems(2,3)] Cons.prems show ?case
    by (auto simp: p split: sum.splits)
qed

lemma urlencode_setitem:
  assumes "urlencode ps = Inr q" and "str_encode k = Inr kb" and "str_encode s = Inr sb"
  shows "\<exists>q'. urlencode (dict_setitem ps k (VStr s)) = Inr q'"
proof -
  from assms(1) obtain l where l: "urlencode_items ps = Inr l"
    by (auto simp: urlencode_def split: sum.splits)
  from assms(2,3) obtain qk qv where "quote_plus k = Inr qk" "quote_plus (py_str (VStr s)) = Inr qv"
    by (auto simp: quote_plus_def)
  from urlencode_items_setitem [OF l this] show ?thesis
    by (auto simp: urlencode_def)
qed

lemma url_without_sesssion_signature_returns:
  assumes "str_encode (root c) = Inr rb" and "str_encode m = Inr mb" and "urlencode ps = Inr q"
  shows "\<exists>p ub. url_without_sesssion_signature c m ps = Inr p \<and> str_encode p = Inr ub"
proof -
  have sl: "str_encode (lit ''/'') = Inr [47]" and qm: "str_encode (lit ''?'') = Inr [63]"
    by (simp_all add: lit_def utf8_char_def)
  have "str_encode q = Inr (map word_of_nat q)"
    by (rule str_encode_ascii) (rule urlencode_ascii [OF assms(3)])
  with assms sl qm show ?thesis
    by (simp add: url_without_sesssion_signature_def str_encode_append)
qed

lemma add_session_signature_returns:
  assumes s: "session c = Some s"
    and r: "str_encode (root c) = Inr rb" and m: "str_encode m = Inr mb"
    and i: "str_encode (id_hex s) = Inr ib" and q: "urlencode ps = Inr q"
  shows "\<exists>url ps' x.
           add_session_signature c tick m ps = (Inr url, ps')
         \<and> dict_get ps' (lit ''session_signature'')
              = Some (VStr (id_hex s @ to_hex8_str (drop_bit 8 tick) @ to_hex8_str x))"
proof -
  from url_without_sesssion_signature_returns [OF r m q] obtain p ub where
    p: "url_without_sesssion_signature c m ps = Inr p" and ub: "str_encode p = Inr ub"
    by blast
  define x where "x = signature_crc (private_salt_hash s)
      (map word_of_nat (to_hex8_str (drop_bit 8 tick))) ub"
  define sig where "sig = id_hex s @ to_hex8_str (drop_bit 8 tick) @ to_hex8_str x"
  have k: "str_encode (lit ''session_signature'') = Inr (map word_of_nat (lit ''session_signature''))"
    by (rule str_encode_ascii) (simp add: lit_def)
  have "\<exists>b. str_encode sig = Inr b"
    by (simp add: sig_def str_encode_append i str_encode_to_hex8_str)
  then obtain sb where sb: "str_encode sig = Inr sb" ..
  from urlencode_setitem [OF q k sb] obtain q' where
    q': "urlencode (dict_setitem ps (lit ''session_signature'') (VStr sig)) = Inr q'" ..
  have "add_session_signature c tick m ps =
          (Inr (root c @ lit ''/'' @ m @ lit ''?'' @ q'),
           dict_setitem ps (lit ''session_signature'') (VStr sig))"
    using p ub q' by (simp add: add_session_signature_eq [OF s] Let_def sig_def x_def)
  then show ?thesis
    by (auto simp: dict_get_setitem sig_def)
qed

section \<open>Evaluating the models\<close>

lemma hex_digits_8:
  "hex_digits 8 n =
     [hex_digit_upper (n div 16 div 16 div 16 div 16 div 16 div 16 div 16 mod 16),
      hex_digit_upper (n div 16 div 16 div 16 div 16 div 16 div 16 mod 16),
      hex_digit_upper (n div 16 div 16 div 16 div 16 div 16 mod 16),
      hex_digit_upper (n div 16 div 16 div 16 div 16 mod 16),
      hex_digit_upper (n div 16 div 16 div 16 mod 16),
      hex_digit_upper (n div 16 div 16 mod 16),
      hex_digit_upper (n div 16 mod 16),
      hex_digit_upper (n mod 16)]"
proof -
  have "(8::nat) = Suc (Suc (Suc (Suc (Suc (Suc (Suc (Suc 0)))))))"
    by simp
  then show ?thesis
    by (simp only: hex_digits.simps append.simps)
qed

lemmas to_hex8_str_eval = to_hex8_str_def hex_digits_8 hex_digit_upper_def

lemmas urlencode_eval = urlencode_def quote_plus_def quote_plus_byte_def always_safe_def
  utf8_char_def hex_digit_upper_def lit_def Let_def

lemma to_hex8_str_examples:
  "to_hex8_str 0 = lit ''00000000''" "to_hex8_str 255 = lit ''000000FF''"
  "to_hex8_str 4294967295 = lit ''FFFFFFFF''"
  by (simp_all add: to_hex8_str_eval lit_def)

section \<open>The worked examples, evaluated\<close>

lemma demo_nonce:
  "generate_client_nonce demo_token =
     lit ''BBBBBBBBBBBBBBBBBBBBBBBBBBBBBBBBBBBBBBBBBBBBBBBBBBBBBBBBBBBBBBBB''"
  by (simp add: generate_client_nonce_def demo_token_def hexlify_def str_upper_def
      hex_digit_lower_def ascii_upper_def lit_def)

lemma demo_get_server_nonce:
  "get_server_nonce (scripted_transport demo_challenge a) demo_client demo_user
     = Inr (JString (lit ''AAAAAAAA''))"
  by (simp add: get_server_nonce_def scripted_transport_def server_nonce_url_def demo_client_def
      init_client_def demo_challenge_def json_result_def demo_user_def lit_def)

lemma scripted_answer: "scripted_transport ch a (login_url c u pw cn) = a"
  by (simp add: scripted_transport_def login_url_def lit_def)

lemma demo_sha256password:
  "sha256password (root demo_client) (JString (lit ''AAAAAAAA'')) (generate_client_nonce demo_token)
     demo_user demo_hash = Inr (hex_upper (sha256 demo_login_bytes))"
  by (simp add: sha256password_eq demo_nonce demo_client_def init_client_def demo_user_def
      demo_hash_def demo_login_bytes_def lit_def utf8_char_def)

text \<open>The end-to-end scenario: the login hash of the example, as \<open>hashlib\<close> computes it.\<close>

lemma demo_login_hash:
  "hex_upper (sha256 demo_login_bytes)
     = lit ''1C79FA76D1007CA6429A8DB36218150DE8EF2F51E8767CC2F2DA3907E689F7AB''"
  by code_simp

lemma demo_login_rejected:
  "login demo_render_id demo_seed_of (scripted_transport demo_challenge (Inr demo_reject))
      demo_token demo_client demo_user demo_hash =
   (Inr None, demo_client,
    [server_nonce_url demo_client demo_user,
     login_url demo_client demo_user (hex_upper (sha256 demo_login_bytes))
       (generate_client_nonce demo_token)])"
  by (simp add: login_after_handshake [OF demo_get_server_nonce demo_sha256password scripted_answer]
      demo_reject_def)

lemma demo_get_server_nonce_logged_in:
  "get_server_nonce (scripted_transport demo_challenge a) demo_logged_in demo_user
     = Inr (JString (lit ''AAAAAAAA''))"
  by (simp add: get_server_nonce_def scripted_transport_def server_nonce_url_def demo_logged_in_def
      demo_client_def init_client_def demo_challenge_def json_result_def demo_user_def lit_def)

lemma demo_sha256password_logged_in:
  "sha256password (root demo_logged_in) (JString (lit ''AAAAAAAA'')) (generate_client_nonce demo_token)
     demo_user demo_hash = Inr (hex_upper (sha256 demo_login_bytes))"
  using demo_sha256password by (simp add: demo_logged_in_def)

lemma demo_json_results:
  "json_result demo_accept = Inr (JString (lit ''0012D687''))"
  "json_result demo_no_result = Inl KeyError"
  by (simp_all add: json_result_def demo_accept_def demo_no_result_def)

lemma demo_status:
  "status_code demo_accept = 200" "status_code demo_no_result = 200" "status_code demo_reject = 403"
  by (simp_all add: demo_accept_def demo_no_result_def demo_reject_def)

lemma demo_login_accepted:
  "login demo_render_id demo_seed_of (scripted_transport demo_challenge (Inr demo_accept))
      demo_token demo_client demo_user demo_hash =
   (Inr (Some demo_session), demo_logged_in,
    [server_nonce_url demo_client demo_user,
     login_url demo_client demo_user (hex_upper (sha256 demo_login_bytes))
       (generate_client_nonce demo_token)])"
  by (simp add: login_after_handshake [OF demo_get_server_nonce demo_sha256password scripted_answer]
      Let_def demo_status demo_json_results demo_session_def demo_logged_in_def)

lemma demo_login_no_result:
  "login demo_render_id demo_seed_of (scripted_transport demo_challenge (Inr demo_no_result))
      demo_token demo_client demo_user demo_hash =
   (Inl KeyError, demo_client,
    [server_nonce_url demo_client demo_user,
     login_url demo_client demo_user (hex_upper (sha256 demo_login_bytes))
       (generate_client_nonce demo_token)])"
  by (simp add: login_after_handshake [OF demo_get_server_nonce demo_sha256password scripted_answer]
      Let_def demo_status demo_json_results)

lemma demo_relogin_rejected:
  "login demo_render_id demo_seed_of (scripted_transport demo_challenge (Inr demo_reject))
      demo_token demo_logged_in demo_user demo_hash =
   (Inr None, demo_logged_in,
    [server_nonce_url demo_logged_in demo_user,
     login_url demo_logged_in demo_user (hex_upper (sha256 demo_login_bytes))
       (generate_client_nonce demo_token)])"
  by (simp add: login_after_handshake
        [OF demo_get_server_nonce_logged_in demo_sha256password_logged_in scripted_answer]
      Let_def demo_status)

lemma demo_session_fields:
  "session demo_logged_in = Some demo_session"
  "root demo_logged_in = lit ''root''"
  "id_hex demo_session = lit ''0012D687''"
  "private_salt_hash demo_session = 4438"
  by (simp_all add: demo_logged_in_def demo_client_def init_client_def demo_session_def
      Session_init_def demo_render_id_def demo_seed_of_def demo_hash_def lit_def)

lemma demo_unsigned_path:
  "url_without_sesssion_signature demo_logged_in (lit ''MyMethod'') demo_parameters
     = Inr (lit ''root/MyMethod?param1=1'')"
  by (simp add: url_without_sesssion_signature_def demo_session_fields demo_parameters_def
      urlencode_eval)

lemma demo_nonce8:
  "to_hex8_str (drop_bit 8 0x12345678) = lit ''00123456''"
  "to_hex8_str (drop_bit 8 0x123456FF) = lit ''00123456''"
  "to_hex8_str (drop_bit 8 0x12345700) = lit ''00123457''"
  by (simp_all add: to_hex8_str_eval lit_def)

lemma demo_crc:
  "signature_crc 4438 (map word_of_nat (lit ''00123456'')) (map word_of_nat (lit ''root/MyMethod?param1=1''))
     = 0x6F9EA320"
  by (simp add: signature_crc_eq lit_def crc32_eval)

lemma demo_crc8: "to_hex8_str 0x6F9EA320 = lit ''6F9EA320''"
  by (simp add: to_hex8_str_eval lit_def)

lemma demo_sign:
  "add_session_signature demo_logged_in 0x12345678 (lit ''MyMethod'') demo_parameters =
     (Inr (lit ''root/MyMethod?param1=1&session_signature=0012D687001234566F9EA320''),
      [(lit ''param1'', VInt 1),
       (lit ''session_signature'', VStr (lit ''0012D687001234566F9EA320''))])"
proof -
  have e: "str_encode (lit ''root/MyMethod?param1=1'')
             = Inr (map word_of_nat (lit ''root/MyMethod?param1=1''))"
    by (rule str_encode_ascii) (simp add: lit_def)
  have d: "dict_setitem demo_parameters (lit ''session_signature'')
             (VStr (lit ''0012D687'' @ lit ''00123456'' @ lit ''6F9EA320''))
           = [(lit ''param1'', VInt 1),
              (lit ''session_signature'', VStr (lit ''0012D687001234566F9EA320''))]"
    by (simp add: demo_parameters_def lit_def)
  have q: "urlencode [(lit ''param1'', VInt 1),
              (lit ''session_signature'', VStr (lit ''0012D687001234566F9EA320''))]
           = Inr (lit ''param1=1&session_signature=0012D687001234566F9EA320'')"
    by (simp add: urlencode_eval)
  have j: "lit ''root'' @ lit ''/'' @ lit ''MyMethod'' @ lit ''?''
             @ lit ''param1=1&session_signature=0012D687001234566F9EA320''
           = lit ''root/MyMethod?param1=1&session_signature=0012D687001234566F9EA320''"
    by (simp add: lit_def)
  show ?thesis
    by (simp only: add_session_signature_eq [OF demo_session_fields(1)] demo_unsigned_path e
        demo_nonce8 demo_session_fields demo_crc demo_crc8 d q j Let_def sum.case)
qed

lemma demo_sign_next_window:
  "add_session_signature demo_logged_in 0x12345700 (lit ''MyMethod'') demo_parameters =
     (Inr (lit ''root/MyMethod?param1=1&session_signature=0012D68700123457F4ED49F4''),
      [(lit ''param1'', VInt 1),
       (lit ''session_signature'', VStr (lit ''0012D68700123457F4ED49F4''))])"
proof -
  have e: "str_encode (lit ''root/MyMethod?param1=1'')
             = Inr (map word_of_nat (lit ''root/MyMethod?param1=1''))"
    by (rule str_encode_ascii) (simp add: lit_def)
  have c: "signature_crc (private_salt_hash demo_session) (map word_of_nat (lit ''00123457''))
             (map word_of_nat (lit ''root/MyMethod?param1=1'')) = 0xF4ED49F4"
    by (simp add: demo_session_fields signature_crc_eq lit_def crc32_eval)
  have h: "to_hex8_str 0xF4ED49F4 = lit ''F4ED49F4''"
    by (simp add: to_hex8_str_eval lit_def)
  have d: "dict_setitem demo_parameters (lit ''session_signature'')
             (VStr (id_hex demo_session @ lit ''00123457'' @ lit ''F4ED49F4''))
           = [(lit ''param1'', VInt 1),
              (lit ''session_signature'', VStr (lit ''0012D68700123457F4ED49F4''))]"
    by (simp add: demo_session_fields demo_parameters_def lit_def)
  have q: "urlencode [(lit ''param1'', VInt 1),
              (lit ''session_signature'', VStr (lit ''0012D68700123457F4ED49F4''))]
           = Inr (lit ''param1=1&session_signature=0012D68700123457F4ED49F4'')"
    by (simp add: urlencode_eval)
  from sign_eval [OF demo_session_fields(1) demo_unsigned_path e demo_nonce8(3) c h d q]
  show ?thesis by (simp add: demo_session_fields lit_def)
qed

lemma demo_sign_stale:
  "add_session_signature demo_logged_in 0x12345678 (lit ''MyMethod'') demo_signed_parameters =
     (Inr (lit ''root/MyMethod?session_signature=0012D6870012345619AEFDEB''),
      [(lit ''session_signature'', VStr (lit ''0012D6870012345619AEFDEB''))])"
proof -
  have u: "url_without_sesssion_signature demo_logged_in (lit ''MyMethod'') demo_signed_parameters
     = Inr (lit ''root/MyMethod?session_signature=stale'')"
    by (simp add: url_without_sesssion_signature_def demo_session_fields demo_signed_parameters_def
        urlencode_eval)
  have e: "str_encode (lit ''root/MyMethod?session_signature=stale'')
             = Inr (map word_of_nat (lit ''root/MyMethod?session_signature=stale''))"
    by (rule str_encode_ascii) (simp add: lit_def)
  have c: "signature_crc (private_salt_hash demo_session) (map word_of_nat (lit ''00123456''))
             (map word_of_nat (lit ''root/MyMethod?session_signature=stale'')) = 0x19AEFDEB"
    by (simp add: demo_session_fields signature_crc_eq lit_def crc32_eval)
  have h: "to_hex8_str 0x19AEFDEB = lit ''19AEFDEB''"
    by (simp add: to_hex8_str_eval lit_def)
  have d: "dict_setitem demo_signed_parameters (lit ''session_signature'')
             (VStr (id_hex demo_session @ lit ''00123456'' @ lit ''19AEFDEB''))
           = [(lit ''session_signature'', VStr (lit ''0012D6870012345619AEFDEB''))]"
    by (simp add: demo_session_fields demo_signed_parameters_def lit_def)
  have q: "urlencode [(lit ''session_signature'', VStr (lit ''0012D6870012345619AEFDEB''))]
           = Inr (lit ''session_signature=0012D6870012345619AEFDEB'')"
    by (simp add: urlencode_eval)
  from sign_eval [OF demo_session_fields(1) u e demo_nonce8(1) c h d q]
  show ?thesis by (simp add: demo_session_fields lit_def)
qed

lemma demo_sign_no_parameters:
  "add_session_signature demo_logged_in 0x12345678 (lit ''MyMethod'') [] =
     (Inr (lit ''root/MyMethod?session_signature=0012D687001234561E1C8412''),
      [(lit ''session_signature'', VStr (lit ''0012D687001234561E1C8412''))])"
proof -
  have u: "url_without_sesssion_signature demo_logged_in (lit ''MyMethod'') []
     = Inr (lit ''root/MyMethod'')"
    by (simp add: url_without_sesssion_signature_def demo_session_fields lit_def)
  have e: "str_encode (lit ''root/MyMethod'') = Inr (map word_of_nat (lit ''root/MyMethod''))"
    by (rule str_encode_ascii) (simp add: lit_def)
  have c: "signature_crc (private_salt_hash demo_session) (map word_of_nat (lit ''00123456''))
             (map word_of_nat (lit ''root/MyMethod'')) = 0x1E1C8412"
    by (simp add: demo_session_fields signature_crc_eq lit_def crc32_eval)
  have h: "to_hex8_str 0x1E1C8412 = lit ''1E1C8412''"
    by (simp add: to_hex8_str_eval lit_def)
  have d: "dict_setitem [] (lit ''session_signature'')
             (VStr (id_hex demo_session @ lit ''00123456'' @ lit ''1E1C8412''))
           = [(lit ''session_signature'', VStr (lit ''0012D687001234561E1C8412''))]"
    by (simp add: demo_session_fields lit_def)
  have q: "urlencode [(lit ''session_signature'', VStr (lit ''0012D687001234561E1C8412''))]
           = Inr (lit ''session_signature=0012D687001234561E1C8412'')"
    by (simp add: urlencode_eval)
  from sign_eval [OF demo_session_fields(1) u e demo_nonce8(1) c h d q]
  show ?thesis by (simp add: demo_session_fields lit_def)
qed

section \<open>The login hash\<close>

text \<open>
  Claim C1. The value that \<open>login\<close> computes as \<open>sha256password\<close> and sends as the
  \<open>Password\<close> of the second request is the uppercase hexadecimal SHA-256 digest of the
  UTF-8 bytes of root, server nonce, client nonce, user and password hash, concatenated in
  this order with nothing in between. The value exists exactly when the five strings can
  be encoded; whenever \<open>login\<close> issues its second request, that request carries it.
\<close>

theorem login_password_is_sha256_of_concatenation:
  "(sha256password r (JString sn) cn u ph = Inr h \<longleftrightarrow>
      (\<exists>b1 b2 b3 b4 b5.
          str_encode r = Inr b1 \<and> str_encode sn = Inr b2 \<and> str_encode cn = Inr b3
        \<and> str_encode u = Inr b4 \<and> str_encode ph = Inr b5
        \<and> h = hex_upper (sha256 (b1 @ b2 @ b3 @ b4 @ b5))))
   \<and> (login render_id seed_of http_get token_bytes c user password_hash = (res, c', [u1, u2]) \<longrightarrow>
      (\<exists>sn b1 b2 b3 b4 b5.
          get_server_nonce http_get c user = Inr (JString sn)
        \<and> str_encode (root c) = Inr b1 \<and> str_encode sn = Inr b2
        \<and> str_encode (generate_client_nonce token_bytes) = Inr b3
        \<and> str_encode user = Inr b4 \<and> str_encode password_hash = Inr b5
        \<and> u2 = login_url c user (hex_upper (sha256 (b1 @ b2 @ b3 @ b4 @ b5)))
                  (generate_client_nonce token_bytes)))"
proof (intro conjI impI)
  show "sha256password r (JString sn) cn u ph = Inr h \<longleftrightarrow>
      (\<exists>b1 b2 b3 b4 b5.
          str_encode r = Inr b1 \<and> str_encode sn = Inr b2 \<and> str_encode cn = Inr b3
        \<and> str_encode u = Inr b4 \<and> str_encode ph = Inr b5
        \<and> h = hex_upper (sha256 (b1 @ b2 @ b3 @ b4 @ b5)))"
    by (auto simp: sha256password_eq split: sum.splits)
next
  assume "login render_id seed_of http_get token_bytes c user password_hash = (res, c', [u1, u2])"
  from login_two_requests [OF this] obtain nonce pw where
    n: "get_server_nonce http_get c user = Inr nonce" and
    p: "sha256password (root c) nonce (generate_client_nonce token_bytes) user password_hash = Inr pw" and
    u: "u2 = login_url c user pw (generate_client_nonce token_bytes)"
    by blast
  from p obtain sn where sn: "nonce = JString sn"
    by (cases nonce) (simp_all add: sha256password_def)
  from p [unfolded sn] n u sn
  show "\<exists>sn b1 b2 b3 b4 b5.
          get_server_nonce http_get c user = Inr (JString sn)
        \<and> str_encode (root c) = Inr b1 \<and> str_encode sn = Inr b2
        \<and> str_encode (generate_client_nonce token_bytes) = Inr b3
        \<and> str_encode user = Inr b4 \<and> str_encode password_hash = Inr b5
        \<and> u2 = login_url c user (hex_upper (sha256 (b1 @ b2 @ b3 @ b4 @ b5)))
                  (generate_client_nonce token_bytes)"
    by (auto simp: sha256password_eq split: sum.splits)
qed

theorem login_password_is_sha256_of_concatenation_witness:
  "sha256password (lit ''root'') (JString (lit ''AAAAAAAA'')) (generate_client_nonce demo_token)
      demo_user demo_hash = Inr (hex_upper (sha256 demo_login_bytes))
   \<and> login demo_render_id demo_seed_of (scripted_transport demo_challenge (Inr demo_reject))
        demo_token demo_client demo_user demo_hash =
       (Inr None, demo_client,
        [server_nonce_url demo_client demo_user,
         login_url demo_client demo_user (hex_upper (sha256 demo_login_bytes))
           (generate_client_nonce demo_token)])
   \<and> (\<exists>sn b1 b2 b3 b4 b5.
          get_server_nonce (scripted_transport demo_challenge (Inr demo_reject)) demo_client demo_user
            = Inr (JString sn)
        \<and> str_encode (root demo_client) = Inr b1 \<and> str_encode sn = Inr b2
        \<and> str_encode (generate_client_nonce demo_token) = Inr b3
        \<and> str_encode demo_user = Inr b4 \<and> str_encode demo_hash = Inr b5
        \<and> login_url demo_client demo_user (hex_upper (sha256 demo_login_bytes))
             (generate_client_nonce demo_token)
           = login_url demo_client demo_user (hex_upper (sha256 (b1 @ b2 @ b3 @ b4 @ b5)))
               (generate_client_nonce demo_token))"
proof (intro conjI)
  have enc:
    "str_encode (lit ''root'') = Inr (map word_of_nat (lit ''root''))"
    "str_encode (lit ''AAAAAAAA'') = Inr (map word_of_nat (lit ''AAAAAAAA''))"
    "str_encode (generate_client_nonce demo_token)
       = Inr (map word_of_nat (generate_client_nonce demo_token))"
    "str_encode demo_user = Inr (map word_of_nat demo_user)"
    "str_encode demo_hash = Inr (map word_of_nat demo_hash)"
    by (simp_all add: demo_nonce demo_user_def demo_hash_def lit_def utf8_char_def)
  have cat: "map word_of_nat (lit ''root'') @ map word_of_nat (lit ''AAAAAAAA'')
        @ map word_of_nat (generate_client_nonce demo_token) @ map word_of_nat demo_user
        @ map word_of_nat demo_hash = demo_login_bytes"
    by (simp add: demo_login_bytes_def demo_nonce demo_user_def demo_hash_def)
  have "sha256password (lit ''root'') (JString (lit ''AAAAAAAA'')) (generate_client_nonce demo_token)
      demo_user demo_hash
     = Inr (hex_upper (sha256 (map word_of_nat (lit ''root'') @ map word_of_nat (lit ''AAAAAAAA'')
        @ map word_of_nat (generate_client_nonce demo_token) @ map word_of_nat demo_user
        @ map word_of_nat demo_hash)))"
    using enc
    by (intro login_password_is_sha256_of_concatenation [THEN conjunct1, THEN iffD2]) blast
  then show "sha256password (lit ''root'') (JString (lit ''AAAAAAAA''))
      (generate_client_nonce demo_token) demo_user demo_hash
       = Inr (hex_upper (sha256 demo_login_bytes))"
    by (simp only: cat)
next
  show "login demo_render_id demo_seed_of (scripted_transport demo_challenge (Inr demo_reject))
        demo_token demo_client demo_user demo_hash =
       (Inr None, demo_client,
        [server_nonce_url demo_client demo_user,
         login_url demo_client demo_user (hex_upper (sha256 demo_login_bytes))
           (generate_client_nonce demo_token)])"
    by (rule demo_login_rejected)
next
  show "\<exists>sn b1 b2 b3 b4 b5.
          get_server_nonce (scripted_transport demo_challenge (Inr demo_reject)) demo_client demo_user
            = Inr (JString sn)
        \<and> str_encode (root demo_client) = Inr b1 \<and> str_encode sn = Inr b2
        \<and> str_encode (generate_client_nonce demo_token) = Inr b3
        \<and> str_encode demo_user = Inr b4 \<and> str_encode demo_hash = Inr b5
        \<and> login_url demo_client demo_user (hex_upper (sha256 demo_login_bytes))
             (generate_client_nonce demo_token)
           = login_url demo_client demo_user (hex_upper (sha256 (b1 @ b2 @ b3 @ b4 @ b5)))
               (generate_client_nonce demo_token)"
    by (rule login_password_is_sha256_of_concatenation
          [THEN conjunct2, THEN mp, OF demo_login_rejected])
qed

section \<open>The layout of the signature\<close>

text \<open>
  Claim C2. When signing returns, the value stored under \<open>session_signature\<close> is the
  session's \<open>id_hex\<close>, then the 8 hexadecimal digits of the tick count shifted right by
  8 bits, then the 8 hexadecimal digits of the checksum, with nothing in between; it is 16
  characters longer than \<open>id_hex\<close>. The checksum is the chained CRC-32 of the bytes of
  the nonce and of the unsigned path.
\<close>

theorem session_signature_layout:
  assumes "add_session_signature c tick method ps = (Inr url, ps')"
  shows "\<exists>s url0 ub nb.
           session c = Some s
         \<and> url_without_sesssion_signature c method ps = Inr url0
         \<and> str_encode url0 = Inr ub
         \<and> str_encode (to_hex8_str (drop_bit 8 tick)) = Inr nb
         \<and> dict_get ps' (lit ''session_signature'')
             = Some (VStr (id_hex s @ to_hex8_str (drop_bit 8 tick)
                           @ to_hex8_str (signature_crc (private_salt_hash s) nb ub)))
         \<and> length (id_hex s @ to_hex8_str (drop_bit 8 tick)
                    @ to_hex8_str (signature_crc (private_salt_hash s) nb ub))
             = length (id_hex s) + 16"
proof -
  from add_session_signature_success [OF assms] obtain s url0 ub q where
    s: "session c = Some s" and u: "url_without_sesssion_signature c method ps = Inr url0"
    and e: "str_encode url0 = Inr ub"
    and p: "ps' = dict_setitem ps (lit ''session_signature'')
                   (VStr (id_hex s @ to_hex8_str (drop_bit 8 tick)
                          @ to_hex8_str (signature_crc (private_salt_hash s)
                               (map word_of_nat (to_hex8_str (drop_bit 8 tick))) ub)))"
    by blast
  show ?thesis
    using s u e by (simp add: p dict_get_setitem str_encode_to_hex8_str length_to_hex8_str)
qed

theorem session_signature_layout_witness:
  "add_session_signature demo_logged_in 0x12345678 (lit ''MyMethod'') demo_parameters =
     (Inr (lit ''root/MyMethod?param1=1&session_signature=0012D687001234566F9EA320''),
      [(lit ''param1'', VInt 1),
       (lit ''session_signature'', VStr (lit ''0012D687001234566F9EA320''))])
   \<and> (\<exists>s url0 ub nb.
           session demo_logged_in = Some s
         \<and> url_without_sesssion_signature demo_logged_in (lit ''MyMethod'') demo_parameters = Inr url0
         \<and> str_encode url0 = Inr ub
         \<and> str_encode (to_hex8_str (drop_bit 8 0x12345678)) = Inr nb
         \<and> dict_get [(lit ''param1'', VInt 1),
                (lit ''session_signature'', VStr (lit ''0012D687001234566F9EA320''))]
              (lit ''session_signature'')
             = Some (VStr (id_hex s @ to_hex8_str (drop_bit 8 0x12345678)
                           @ to_hex8_str (signature_crc (private_salt_hash s) nb ub)))
         \<and> length (id_hex s @ to_hex8_str (drop_bit 8 0x12345678)
                    @ to_hex8_str (signature_crc (private_salt_hash s) nb ub))
             = length (id_hex s) + 16)"
  using demo_sign session_signature_layout [OF demo_sign] by (rule conjI)

section \<open>The checksum chain\<close>

text \<open>
  Claim C3. For every seed and byte strings \<open>a\<close> and \<open>b\<close>, the two chained calls of
  the client compute the spec's chain over the two segments, which is
  \<open>crc32 b (crc32 a seed)\<close>: the first segment starts from the seed, the second from the
  first one's result. With the standard CRC-32 this is the checksum of \<open>a\<close> followed by
  \<open>b\<close>, started from the seed; the literal vector of the spec (seed 0, "AB", "CD") gives
  0xDB1720A5.
\<close>

theorem checksum_chain_is_nested_crc32:
  "signature_crc seed a b = chain seed [a, b]
   \<and> chain seed [a, b] = crc32 b (crc32 a seed)
   \<and> crc32 b (crc32 a seed) = crc32 (a @ b) seed
   \<and> chain 0 [[0x41, 0x42], [0x43, 0x44]] = 0xDB1720A5"
proof (intro conjI)
  show "signature_crc seed a b = chain seed [a, b]"
    by (simp add: signature_crc_eq chain_def)
  show "chain seed [a, b] = crc32 b (crc32 a seed)"
    by (simp add: chain_def)
  show "crc32 b (crc32 a seed) = crc32 (a @ b) seed"
    by (simp add: crc32_append)
  have "chain 0 [[0x41, 0x42], [0x43, 0x44]] = crc32 [0x43, 0x44] (crc32 [0x41, 0x42] 0)"
    by (simp add: chain_def)
  also have "\<dots> = 0xDB1720A5"
    by (simp add: crc32_eval)
  finally show "chain 0 [[0x41, 0x42], [0x43, 0x44]] = 0xDB1720A5" .
qed

section \<open>The seed of the checksum\<close>

text \<open>
  Claim C4. A session returned by a successful login is the one the client holds; its secret
  seed is the password hash that went into the login hash of that call, and every request
  signed with it afterwards starts the checksum chain from that seed.
\<close>

theorem checksum_seed_is_login_password_hash:
  assumes "login render_id seed_of http_get token_bytes c user password_hash = (Inr (Some s), c', urls)"
  shows "session c' = Some s
       \<and> secretSeed s = password_hash
       \<and> private_salt_hash s = seed_of password_hash
       \<and> (\<exists>nonce pw.
             sha256password (root c) nonce (generate_client_nonce token_bytes) user password_hash
               = Inr pw
           \<and> urls = [server_nonce_url c user,
                      login_url c user pw (generate_client_nonce token_bytes)])
       \<and> (\<forall>tick method ps url ps'.
             add_session_signature c' tick method ps = (Inr url, ps') \<longrightarrow>
             (\<exists>p ub nb.
                 url_without_sesssion_signature c' method ps = Inr p
               \<and> str_encode p = Inr ub
               \<and> str_encode (to_hex8_str (drop_bit 8 tick)) = Inr nb
               \<and> dict_get ps' (lit ''session_signature'')
                    = Some (VStr (id_hex s @ to_hex8_str (drop_bit 8 tick)
                         @ to_hex8_str (crc32 ub (crc32 nb (seed_of password_hash)))))))"
proof -
  from assms have c': "c' = c\<lparr>session := Some s\<rparr>"
    and s: "\<exists>result. s = Session_init render_id seed_of result password_hash"
    and u: "\<exists>nonce pw.
             sha256password (root c) nonce (generate_client_nonce token_bytes) user password_hash
               = Inr pw
           \<and> urls = [server_nonce_url c user,
                      login_url c user pw (generate_client_nonce token_bytes)]"
    by (auto simp: login_def Let_def split: sum.splits if_splits)
  from s have seed: "secretSeed s = password_hash" "private_salt_hash s = seed_of password_hash"
    by (auto simp: Session_init_def)
  from c' have sess: "session c' = Some s" by simp
  have sign: "\<exists>p ub nb.
                 url_without_sesssion_signature c' m ps = Inr p
               \<and> str_encode p = Inr ub
               \<and> str_encode (to_hex8_str (drop_bit 8 tick)) = Inr nb
               \<and> dict_get ps' (lit ''session_signature'')
                    = Some (VStr (id_hex s @ to_hex8_str (drop_bit 8 tick)
                         @ to_hex8_str (crc32 ub (crc32 nb (seed_of password_hash)))))"
    if a: "add_session_signature c' tick m ps = (Inr url, ps')" for tick m ps url ps'
  proof -
    from add_session_signature_success [OF a] sess obtain url0 ub where
      "url_without_sesssion_signature c' m ps = Inr url0" "str_encode url0 = Inr ub"
      "ps' = dict_setitem ps (lit ''session_signature'')
                   (VStr (id_hex s @ to_hex8_str (drop_bit 8 tick)
                          @ to_hex8_str (signature_crc (private_salt_hash s)
                               (map word_of_nat (to_hex8_str (drop_bit 8 tick))) ub)))"
      by auto
    then show ?thesis
      by (simp add: dict_get_setitem str_encode_to_hex8_str signature_crc_eq seed)
  qed
  from sess seed u sign show ?thesis by blast
qed

theorem checksum_seed_is_login_password_hash_witness:
  "login demo_render_id demo_seed_of (scripted_transport demo_challenge (Inr demo_accept))
      demo_token demo_client demo_user demo_hash =
   (Inr (Some demo_session), demo_logged_in,
    [server_nonce_url demo_client demo_user,
     login_url demo_client demo_user (hex_upper (sha256 demo_login_bytes))
       (generate_client_nonce demo_token)])
   \<and> session demo_logged_in = Some demo_session
   \<and> secretSeed demo_session = demo_hash
   \<and> private_salt_hash demo_session = demo_seed_of demo_hash
   \<and> add_session_signature demo_logged_in 0x12345678 (lit ''MyMethod'') demo_parameters =
        (Inr (lit ''root/MyMethod?param1=1&session_signature=0012D687001234566F9EA320''),
         [(lit ''param1'', VInt 1),
          (lit ''session_signature'', VStr (lit ''0012D687001234566F9EA320''))])
   \<and> (\<exists>p ub nb.
          url_without_sesssion_signature demo_logged_in (lit ''MyMethod'') demo_parameters = Inr p
        \<and> str_encode p = Inr ub
        \<and> str_encode (to_hex8_str (drop_bit 8 0x12345678)) = Inr nb
        \<and> dict_get [(lit ''param1'', VInt 1),
              (lit ''session_signature'', VStr (lit ''0012D687001234566F9EA320''))]
              (lit ''session_signature'')
            = Some (VStr (id_hex demo_session @ to_hex8_str (drop_bit 8 0x12345678)
                 @ to_hex8_str (crc32 ub (crc32 nb (demo_seed_of demo_hash))))))"
proof -
  note t = checksum_seed_is_login_password_hash [OF demo_login_accepted]
  from t have a: "session demo_logged_in = Some demo_session"
    and b: "secretSeed demo_session = demo_hash"
    and c: "private_salt_hash demo_session = demo_seed_of demo_hash"
    by blast+
  from t [THEN conjunct2, THEN conjunct2, THEN conjunct2, THEN conjunct2, rule_format, OF demo_sign]
  show ?thesis
    using demo_login_accepted a b c demo_sign by blast
qed

section \<open>What login returns\<close>

text \<open>
  Claim C5, as stated, fails: a handshake response with status 200 whose body has no
  \<open>result\<close> field is not "status 200 with a usable identifier", yet \<open>login\<close> does not
  return \<open>None\<close> on it; it raises \<open>KeyError\<close>.
\<close>

theorem login_raises_on_unreadable_success_counterexample:
  "scripted_transport demo_challenge (Inr demo_no_result)
     (login_url demo_client demo_user (hex_upper (sha256 demo_login_bytes))
        (generate_client_nonce demo_token)) = Inr demo_no_result
   \<and> status_code demo_no_result = 200
   \<and> json_result demo_no_result = Inl KeyError
   \<and> login demo_render_id demo_seed_of (scripted_transport demo_challenge (Inr demo_no_result))
        demo_token demo_client demo_user demo_hash
       = (Inl KeyError, demo_client,
          [server_nonce_url demo_client demo_user,
           login_url demo_client demo_user (hex_upper (sha256 demo_login_bytes))
             (generate_client_nonce demo_token)])
   \<and> fst (login demo_render_id demo_seed_of (scripted_transport demo_challenge (Inr demo_no_result))
        demo_token demo_client demo_user demo_hash) \<noteq> Inr None"
  by (simp add: scripted_answer demo_status demo_json_results demo_login_no_result)

text \<open>
  Claim C5, amended. Once the handshake response has arrived: with status 200 and a body
  whose \<open>result\<close> can be read, \<open>login\<close> builds the session from that result and the
  password hash, stores it and returns it; with any other status it returns \<open>None\<close>
  and raises nothing; with status 200 and a body that is not JSON or has no \<open>result\<close>,
  it raises the error of reading the body.
\<close>

theorem login_outcome_by_status:
  assumes "get_server_nonce http_get c user = Inr nonce"
    and "sha256password (root c) nonce (generate_client_nonce token_bytes) user password_hash = Inr pw"
    and "http_get (login_url c user pw (generate_client_nonce token_bytes)) = Inr resp"
  shows "(status_code resp = 200 \<and> json_result resp = Inr result \<longrightarrow>
            login render_id seed_of http_get token_bytes c user password_hash =
              (Inr (Some (Session_init render_id seed_of result password_hash)),
               c\<lparr>session := Some (Session_init render_id seed_of result password_hash)\<rparr>,
               [server_nonce_url c user, login_url c user pw (generate_client_nonce token_bytes)]))
       \<and> (status_code resp \<noteq> 200 \<longrightarrow>
            login render_id seed_of http_get token_bytes c user password_hash =
              (Inr None, c,
               [server_nonce_url c user, login_url c user pw (generate_client_nonce token_bytes)]))
       \<and> (status_code resp = 200 \<and> json_result resp = Inl e \<longrightarrow>
            login render_id seed_of http_get token_bytes c user password_hash =
              (Inl e, c,
               [server_nonce_url c user, login_url c user pw (generate_client_nonce token_bytes)]))"
  by (simp add: login_after_handshake [OF assms] Let_def)

theorem login_outcome_by_status_witness:
  "(login demo_render_id demo_seed_of (scripted_transport demo_challenge (Inr demo_accept))
      demo_token demo_client demo_user demo_hash =
     (Inr (Some (Session_init demo_render_id demo_seed_of (JString (lit ''0012D687'')) demo_hash)),
      demo_client\<lparr>session :=
        Some (Session_init demo_render_id demo_seed_of (JString (lit ''0012D687'')) demo_hash)\<rparr>,
      [server_nonce_url demo_client demo_user,
       login_url demo_client demo_user (hex_upper (sha256 demo_login_bytes))
         (generate_client_nonce demo_token)]))
   \<and> (login demo_render_id demo_seed_of (scripted_transport demo_challenge (Inr demo_reject))
        demo_token demo_client demo_user demo_hash =
       (Inr None, demo_client,
        [server_nonce_url demo_client demo_user,
         login_url demo_client demo_user (hex_upper (sha256 demo_login_bytes))
           (generate_client_nonce demo_token)]))
   \<and> (login demo_render_id demo_seed_of (scripted_transport demo_challenge (Inr demo_no_result))
        demo_token demo_client demo_user demo_hash =
       (Inl KeyError, demo_client,
        [server_nonce_url demo_client demo_user,
         login_url demo_client demo_user (hex_upper (sha256 demo_login_bytes))
           (generate_client_nonce demo_token)]))"
proof -
  have r: "status_code demo_reject \<noteq> 200"
    by (simp add: demo_status)
  from login_outcome_by_status
         [OF demo_get_server_nonce [of "Inr demo_accept"] demo_sha256password
             scripted_answer [of demo_challenge "Inr demo_accept"],
          THEN conjunct1, rule_format, OF conjI [OF demo_status(1) demo_json_results(1)]]
    login_outcome_by_status
         [OF demo_get_server_nonce [of "Inr demo_reject"] demo_sha256password
             scripted_answer [of demo_challenge "Inr demo_reject"],
          THEN conjunct2, THEN conjunct1, rule_format, OF r]
    login_outcome_by_status
         [OF demo_get_server_nonce [of "Inr demo_no_result"] demo_sha256password
             scripted_answer [of demo_challenge "Inr demo_no_result"],
          THEN conjunct2, THEN conjunct2, rule_format,
          OF conjI [OF demo_status(2) demo_json_results(2)]]
  show ?thesis by blast
qed

section \<open>Failures of the transport\<close>

text \<open>
  Claim C6. When the request for the server nonce fails in the transport, \<open>login\<close>
  raises that failure; it does not return \<open>None\<close>, and it requests nothing else.
\<close>

theorem nonce_fetch_failure_is_raised:
  assumes "http_get (server_nonce_url c user) = Inl f"
  shows "login render_id seed_of http_get token_bytes c user password_hash
           = (Inl (RequestException f), c, [server_nonce_url c user])
         \<and> fst (login render_id seed_of http_get token_bytes c user password_hash) \<noteq> Inr None"
  using assms by (simp add: login_def get_server_nonce_def)

theorem nonce_fetch_failure_is_raised_witness:
  "refusing_transport (server_nonce_url demo_client demo_user) = Inl ConnectionRefused
   \<and> login demo_render_id demo_seed_of refusing_transport demo_token demo_client demo_user demo_hash
       = (Inl (RequestException ConnectionRefused), demo_client, [server_nonce_url demo_client demo_user])
   \<and> fst (login demo_render_id demo_seed_of refusing_transport demo_token demo_client demo_user demo_hash)
       \<noteq> Inr None"
proof -
  have h: "refusing_transport (server_nonce_url demo_client demo_user) = Inl ConnectionRefused"
    by (simp add: refusing_transport_def)
  from h nonce_fetch_failure_is_raised [of refusing_transport demo_client demo_user ConnectionRefused
      demo_render_id demo_seed_of demo_token demo_hash, OF h]
  show ?thesis by simp
qed

section \<open>The unsigned path\<close>



section \<open>The effect of signing on the dictionary\<close>

text \<open>
  Claim C8, as stated, fails: an entry \<open>session_signature\<close> that the dictionary already
  holds (for instance from signing with the same dictionary before) does not keep its
  value.
\<close>

theorem signing_keeps_all_entries_counterexample:
  "dict_get demo_signed_parameters (lit ''session_signature'') = Some (VStr (lit ''stale''))
   \<and> dict_get (snd (add_session_signature demo_logged_in 0x12345678 (lit ''MyMethod'')
                      demo_signed_parameters)) (lit ''session_signature'')
       = Some (VStr (lit ''0012D6870012345619AEFDEB''))
   \<and> dict_get (snd (add_session_signature demo_logged_in 0x12345678 (lit ''MyMethod'')
                      demo_signed_parameters)) (lit ''session_signature'')
       \<noteq> dict_get demo_signed_parameters (lit ''session_signature'')"
  unfolding demo_sign_stale snd_conv
  by (simp add: dict_get_def demo_signed_parameters_def lit_def)

text \<open>
  Claim C8, amended. Signing changes the caller's dictionary at the key
  \<open>session_signature\<close> only: every other key keeps its value, and the dictionary is
  either untouched (the call raised before the assignment) or the old one with
  \<open>session_signature\<close> set. When the call returns, the key holds the signature, at its old
  place if it was there and last otherwise, and the path returned is
  \<open>root/method?urlencode\<close> of the dictionary with the signature.
\<close>

theorem signing_sets_only_the_signature_entry:
  assumes "add_session_signature c tick m ps = (res, ps')"
  shows "(\<forall>k. k \<noteq> lit ''session_signature'' \<longrightarrow> dict_get ps' k = dict_get ps k)
         \<and> (ps' = ps \<or> (\<exists>sig. ps' = dict_setitem ps (lit ''session_signature'') (VStr sig)))
         \<and> (\<forall>url. res = Inr url \<longrightarrow>
              (\<exists>sig q.
                  ps' = dict_setitem ps (lit ''session_signature'') (VStr sig)
                \<and> dict_get ps' (lit ''session_signature'') = Some (VStr sig)
                \<and> map fst ps' = (if lit ''session_signature'' \<in> fst ` set ps then map fst ps
                                  else map fst ps @ [lit ''session_signature''])
                \<and> urlencode ps' = Inr q
                \<and> url = root c @ lit ''/'' @ m @ lit ''?'' @ q))"
proof -
  have alt: "ps' = ps \<or> (\<exists>sig. ps' = dict_setitem ps (lit ''session_signature'') (VStr sig))"
  proof (cases "session c")
    case None
    from add_session_signature_no_session [OF this, of tick m ps] assms
    show ?thesis by auto
  next
    case (Some s)
    from assms show ?thesis
      unfolding add_session_signature_eq [OF Some]
      by (auto simp: Let_def split: sum.splits)
  qed
  then have frame: "\<forall>k. k \<noteq> lit ''session_signature'' \<longrightarrow> dict_get ps' k = dict_get ps k"
    by (auto simp: dict_get_setitem)
  have ret: "\<exists>sig q.
                  ps' = dict_setitem ps (lit ''session_signature'') (VStr sig)
                \<and> dict_get ps' (lit ''session_signature'') = Some (VStr sig)
                \<and> map fst ps' = (if lit ''session_signature'' \<in> fst ` set ps then map fst ps
                                  else map fst ps @ [lit ''session_signature''])
                \<and> urlencode ps' = Inr q
                \<and> url = root c @ lit ''/'' @ m @ lit ''?'' @ q" if "res = Inr url" for url
  proof -
    from assms that have "add_session_signature c tick m ps = (Inr url, ps')" by simp
    from add_session_signature_success [OF this] obtain sig q where
      "ps' = dict_setitem ps (lit ''session_signature'') (VStr sig)"
      "urlencode ps' = Inr q" "url = root c @ lit ''/'' @ m @ lit ''?'' @ q"
      by blast
    then show ?thesis
      by (simp add: dict_get_setitem keys_dict_setitem)
  qed
  from frame alt ret show ?thesis by blast
qed

theorem signing_sets_only_the_signature_entry_witness:
  "add_session_signature demo_logged_in 0x12345678 (lit ''MyMethod'') demo_parameters =
     (Inr (lit ''root/MyMethod?param1=1&session_signature=0012D687001234566F9EA320''),
      [(lit ''param1'', VInt 1),
       (lit ''session_signature'', VStr (lit ''0012D687001234566F9EA320''))])
   \<and> lit ''param1'' \<noteq> lit ''session_signature''
   \<and> dict_get [(lit ''param1'', VInt 1),
         (lit ''session_signature'', VStr (lit ''0012D687001234566F9EA320''))] (lit ''param1'')
       = dict_get demo_parameters (lit ''param1'')
   \<and> (\<exists>sig q.
          [(lit ''param1'', VInt 1),
           (lit ''session_signature'', VStr (lit ''0012D687001234566F9EA320''))]
            = dict_setitem demo_parameters (lit ''session_signature'') (VStr sig)
        \<and> urlencode [(lit ''param1'', VInt 1),
             (lit ''session_signature'', VStr (lit ''0012D687001234566F9EA320''))] = Inr q
        \<and> lit ''root/MyMethod?param1=1&session_signature=0012D687001234566F9EA320''
            = root demo_logged_in @ lit ''/'' @ lit ''MyMethod'' @ lit ''?'' @ q)"
proof -
  note t = signing_sets_only_the_signature_entry [OF demo_sign]
  have ne: "lit ''param1'' \<noteq> lit ''session_signature''"
    by (simp add: lit_def)
  from t [THEN conjunct1, rule_format, OF ne]
  have k: "dict_get [(lit ''param1'', VInt 1),
         (lit ''session_signature'', VStr (lit ''0012D687001234566F9EA320''))] (lit ''param1'')
       = dict_get demo_parameters (lit ''param1'')" .
  from t [THEN conjunct2, THEN conjunct2, rule_format, OF refl]
  show ?thesis
    using demo_sign ne k by blast
qed

section \<open>Tick windows\<close>

text \<open>
  Claim C9. Two calls with the same client, method and parameters whose tick counts agree
  after the shift by 8 bits do the same, so they give the same signature; when the window
  of the second is strictly larger and both calls return, the nonce parts of the two
  signatures (the 8 characters after \<open>id_hex\<close>) differ. The calls do return: with a
  session whose \<open>id_hex\<close> can be encoded, a root and a method that can be encoded and
  parameters that \<open>urlencode\<close> accepts, signing returns at every tick count, the nonce
  part of the signature it stores is the 8 hexadecimal digits of the window, equal windows
  store the same signature and a strictly larger window stores a different nonce part.
\<close>

theorem signature_depends_on_tick_window:
  "(drop_bit 8 t1 = drop_bit 8 t2 \<longrightarrow>
      add_session_signature c t1 m ps = add_session_signature c t2 m ps)
   \<and> (drop_bit 8 t1 < drop_bit 8 t2
        \<and> add_session_signature c t1 m ps = (Inr url1, ps1)
        \<and> add_session_signature c t2 m ps = (Inr url2, ps2) \<longrightarrow>
        (\<exists>s sig1 sig2.
            session c = Some s
          \<and> dict_get ps1 (lit ''session_signature'') = Some (VStr sig1)
          \<and> dict_get ps2 (lit ''session_signature'') = Some (VStr sig2)
          \<and> take 8 (drop (length (id_hex s)) sig1) = to_hex8_str (drop_bit 8 t1)
          \<and> take 8 (drop (length (id_hex s)) sig2) = to_hex8_str (drop_bit 8 t2)
          \<and> take 8 (drop (length (id_hex s)) sig1) \<noteq> take 8 (drop (length (id_hex s)) sig2)))
   \<and> (session c = Some s \<and> str_encode (root c) = Inr rb \<and> str_encode m = Inr mb
        \<and> str_encode (id_hex s) = Inr ib \<and> urlencode ps = Inr q \<longrightarrow>
        (\<exists>url1 ps1 sig1 url2 ps2 sig2.
            add_session_signature c t1 m ps = (Inr url1, ps1)
          \<and> add_session_signature c t2 m ps = (Inr url2, ps2)
          \<and> dict_get ps1 (lit ''session_signature'') = Some (VStr sig1)
          \<and> dict_get ps2 (lit ''session_signature'') = Some (VStr sig2)
          \<and> take 8 (drop (length (id_hex s)) sig1) = to_hex8_str (drop_bit 8 t1)
          \<and> take 8 (drop (length (id_hex s)) sig2) = to_hex8_str (drop_bit 8 t2)
          \<and> (drop_bit 8 t1 = drop_bit 8 t2 \<longrightarrow> sig1 = sig2)
          \<and> (drop_bit 8 t1 < drop_bit 8 t2 \<longrightarrow>
                take 8 (drop (length (id_hex s)) sig1) \<noteq> take 8 (drop (length (id_hex s)) sig2))))"
proof (intro conjI impI)
  assume h: "drop_bit 8 t1 = drop_bit 8 t2"
  show "add_session_signature c t1 m ps = add_session_signature c t2 m ps"
    by (simp only: add_session_signature_def h)
next
  assume a: "drop_bit 8 t1 < drop_bit 8 t2
        \<and> add_session_signature c t1 m ps = (Inr url1, ps1)
        \<and> add_session_signature c t2 m ps = (Inr url2, ps2)"
  from a add_session_signature_success [of c t1 m ps url1 ps1] obtain s x where
    s: "session c = Some s" and
    p1: "ps1 = dict_setitem ps (lit ''session_signature'')
                (VStr (id_hex s @ to_hex8_str (drop_bit 8 t1) @ to_hex8_str x))"
    by blast
  from a add_session_signature_success [of c t2 m ps url2 ps2] s obtain y where
    p2: "ps2 = dict_setitem ps (lit ''session_signature'')
                (VStr (id_hex s @ to_hex8_str (drop_bit 8 t2) @ to_hex8_str y))"
    by auto
  from a have "to_hex8_str (drop_bit 8 t1) \<noteq> to_hex8_str (drop_bit 8 t2)"
    using to_hex8_str_inj [of "drop_bit 8 t1" "drop_bit 8 t2"] by auto
  then show "\<exists>s sig1 sig2.
            session c = Some s
          \<and> dict_get ps1 (lit ''session_signature'') = Some (VStr sig1)
          \<and> dict_get ps2 (lit ''session_signature'') = Some (VStr sig2)
          \<and> take 8 (drop (length (id_hex s)) sig1) = to_hex8_str (drop_bit 8 t1)
          \<and> take 8 (drop (length (id_hex s)) sig2) = to_hex8_str (drop_bit 8 t2)
          \<and> take 8 (drop (length (id_hex s)) sig1) \<noteq> take 8 (drop (length (id_hex s)) sig2)"
    using s by (simp add: p1 p2 dict_get_setitem length_to_hex8_str)
next
  assume pre: "session c = Some s \<and> str_encode (root c) = Inr rb \<and> str_encode m = Inr mb
        \<and> str_encode (id_hex s) = Inr ib \<and> urlencode ps = Inr q"
  then have s: "session c = Some s" and r: "str_encode (root c) = Inr rb"
    and m: "str_encode m = Inr mb" and i: "str_encode (id_hex s) = Inr ib"
    and q: "urlencode ps = Inr q"
    by simp_all
  from add_session_signature_returns [OF s r m i q, of t1] obtain url1 ps1 x where
    c1: "add_session_signature c t1 m ps = (Inr url1, ps1)" and
    g1: "dict_get ps1 (lit ''session_signature'')
           = Some (VStr (id_hex s @ to_hex8_str (drop_bit 8 t1) @ to_hex8_str x))"
    by blast
  from add_session_signature_returns [OF s r m i q, of t2] obtain url2 ps2 y where
    c2: "add_session_signature c t2 m ps = (Inr url2, ps2)" and
    g2: "dict_get ps2 (lit ''session_signature'')
           = Some (VStr (id_hex s @ to_hex8_str (drop_bit 8 t2) @ to_hex8_str y))"
    by blast
  define sig1 where "sig1 = id_hex s @ to_hex8_str (drop_bit 8 t1) @ to_hex8_str x"
  define sig2 where "sig2 = id_hex s @ to_hex8_str (drop_bit 8 t2) @ to_hex8_str y"
  have n1: "take 8 (drop (length (id_hex s)) sig1) = to_hex8_str (drop_bit 8 t1)"
    and n2: "take 8 (drop (length (id_hex s)) sig2) = to_hex8_str (drop_bit 8 t2)"
    by (simp_all add: sig1_def sig2_def length_to_hex8_str)
  have same: "sig1 = sig2" if h: "drop_bit 8 t1 = drop_bit 8 t2"
  proof -
    have "add_session_signature c t1 m ps = add_session_signature c t2 m ps"
      by (simp only: add_session_signature_def h)
    with c1 c2 have "ps1 = ps2" by simp
    with g1 g2 show ?thesis by (simp add: sig1_def sig2_def)
  qed
  have differ: "take 8 (drop (length (id_hex s)) sig1) \<noteq> take 8 (drop (length (id_hex s)) sig2)"
    if h: "drop_bit 8 t1 < drop_bit 8 t2"
    unfolding n1 n2 using to_hex8_str_inj [of "drop_bit 8 t1" "drop_bit 8 t2"] h by auto
  from c1 c2 g1 g2 n1 n2 same differ
  show "\<exists>url1 ps1 sig1 url2 ps2 sig2.
            add_session_signature c t1 m ps = (Inr url1, ps1)
          \<and> add_session_signature c t2 m ps = (Inr url2, ps2)
          \<and> dict_get ps1 (lit ''session_signature'') = Some (VStr sig1)
          \<and> dict_get ps2 (lit ''session_signature'') = Some (VStr sig2)
          \<and> take 8 (drop (length (id_hex s)) sig1) = to_hex8_str (drop_bit 8 t1)
          \<and> take 8 (drop (length (id_hex s)) sig2) = to_hex8_str (drop_bit 8 t2)
          \<and> (drop_bit 8 t1 = drop_bit 8 t2 \<longrightarrow> sig1 = sig2)
          \<and> (drop_bit 8 t1 < drop_bit 8 t2 \<longrightarrow>
                take 8 (drop (length (id_hex s)) sig1) \<noteq> take 8 (drop (length (id_hex s)) sig2))"
    unfolding sig1_def sig2_def by blast
qed

theorem signature_depends_on_tick_window_witness:
  "add_session_signature demo_logged_in 0x12345678 (lit ''MyMethod'') demo_parameters =
     (Inr (lit ''root/MyMethod?param1=1&session_signature=0012D687001234566F9EA320''),
      [(lit ''param1'', VInt 1),
       (lit ''session_signature'', VStr (lit ''0012D687001234566F9EA320''))])
   \<and> drop_bit 8 (0x12345678 :: u32) = drop_bit 8 (0x123456FF :: u32)
   \<and> add_session_signature demo_logged_in 0x123456FF (lit ''MyMethod'') demo_parameters =
     (Inr (lit ''root/MyMethod?param1=1&session_signature=0012D687001234566F9EA320''),
      [(lit ''param1'', VInt 1),
       (lit ''session_signature'', VStr (lit ''0012D687001234566F9EA320''))])
   \<and> drop_bit 8 (0x12345678 :: u32) < drop_bit 8 (0x12345700 :: u32)
   \<and> add_session_signature demo_logged_in 0x12345700 (lit ''MyMethod'') demo_parameters =
     (Inr (lit ''root/MyMethod?param1=1&session_signature=0012D68700123457F4ED49F4''),
      [(lit ''param1'', VInt 1),
       (lit ''session_signature'', VStr (lit ''0012D68700123457F4ED49F4''))])
   \<and> (\<exists>s sig1 sig2.
          session demo_logged_in = Some s
        \<and> dict_get (snd (add_session_signature demo_logged_in 0x12345678 (lit ''MyMethod'')
                             demo_parameters)) (lit ''session_signature'') = Some (VStr sig1)
        \<and> dict_get (snd (add_session_signature demo_logged_in 0x12345700 (lit ''MyMethod'')
                             demo_parameters)) (lit ''session_signature'') = Some (VStr sig2)
        \<and> take 8 (drop (length (id_hex s)) sig1) = to_hex8_str (drop_bit 8 0x12345678)
        \<and> take 8 (drop (length (id_hex s)) sig2) = to_hex8_str (drop_bit 8 0x12345700)
        \<and> take 8 (drop (length (id_hex s)) sig1) \<noteq> take 8 (drop (length (id_hex s)) sig2))
   \<and> session demo_logged_in = Some demo_session
   \<and> str_encode (root demo_logged_in) = Inr (map word_of_nat (lit ''root''))
   \<and> str_encode (lit ''MyMethod'') = Inr (map word_of_nat (lit ''MyMethod''))
   \<and> str_encode (id_hex demo_session) = Inr (map word_of_nat (lit ''0012D687''))
   \<and> urlencode demo_parameters = Inr (lit ''param1=1'')
   \<and> (\<exists>url1 ps1 sig1 url2 ps2 sig2.
          add_session_signature demo_logged_in 0x12345678 (lit ''MyMethod'') demo_parameters
            = (Inr url1, ps1)
        \<and> add_session_signature demo_logged_in 0x12345700 (lit ''MyMethod'') demo_parameters
            = (Inr url2, ps2)
        \<and> dict_get ps1 (lit ''session_signature'') = Some (VStr sig1)
        \<and> dict_get ps2 (lit ''session_signature'') = Some (VStr sig2)
        \<and> take 8 (drop (length (id_hex demo_session)) sig1) = to_hex8_str (drop_bit 8 0x12345678)
        \<and> take 8 (drop (length (id_hex demo_session)) sig2) = to_hex8_str (drop_bit 8 0x12345700)
        \<and> take 8 (drop (length (id_hex demo_session)) sig1)
            \<noteq> take 8 (drop (length (id_hex demo_session)) sig2))
   \<and> take 8 (drop 8 (lit ''0012D687001234566F9EA320'')) = lit ''00123456''
   \<and> take 8 (drop 8 (lit ''0012D68700123457F4ED49F4'')) = lit ''00123457''"
proof -
  note t = signature_depends_on_tick_window
  let ?M = "lit ''MyMethod''"
  have same: "drop_bit 8 (0x12345678 :: u32) = drop_bit 8 (0x123456FF :: u32)"
    by simp
  have later: "drop_bit 8 (0x12345678 :: u32) < drop_bit 8 (0x12345700 :: u32)"
    by simp
  from t [THEN conjunct1, rule_format, OF same, of demo_logged_in ?M demo_parameters]
  have again: "add_session_signature demo_logged_in 0x123456FF ?M demo_parameters =
     (Inr (lit ''root/MyMethod?param1=1&session_signature=0012D687001234566F9EA320''),
      [(lit ''param1'', VInt 1),
       (lit ''session_signature'', VStr (lit ''0012D687001234566F9EA320''))])"
    by (simp only: demo_sign)
  have r1: "add_session_signature demo_logged_in 0x12345678 ?M demo_parameters =
      (Inr (lit ''root/MyMethod?param1=1&session_signature=0012D687001234566F9EA320''),
       snd (add_session_signature demo_logged_in 0x12345678 ?M demo_parameters))"
    by (simp only: demo_sign snd_conv)
  have r2: "add_session_signature demo_logged_in 0x12345700 ?M demo_parameters =
      (Inr (lit ''root/MyMethod?param1=1&session_signature=0012D68700123457F4ED49F4''),
       snd (add_session_signature demo_logged_in 0x12345700 ?M demo_parameters))"
    by (simp only: demo_sign_next_window snd_conv)
  note part2 = t [THEN conjunct2, THEN conjunct1, rule_format, OF conjI [OF later conjI [OF r1 r2]]]
  have pre:
    "str_encode (root demo_logged_in) = Inr (map word_of_nat (lit ''root''))"
    "str_encode (lit ''MyMethod'') = Inr (map word_of_nat (lit ''MyMethod''))"
    "str_encode (id_hex demo_session) = Inr (map word_of_nat (lit ''0012D687''))"
    by (simp_all add: demo_session_fields lit_def utf8_char_def)
  have q: "urlencode demo_parameters = Inr (lit ''param1=1'')"
    by (simp add: demo_parameters_def urlencode_eval)
  from t [THEN conjunct2, THEN conjunct2, rule_format,
      OF conjI [OF demo_session_fields(1) conjI [OF pre(1) conjI [OF pre(2) conjI [OF pre(3) q]]]],
      of "0x12345678" "0x12345700"] later
  have part3: "\<exists>url1 ps1 sig1 url2 ps2 sig2.
          add_session_signature demo_logged_in 0x12345678 ?M demo_parameters = (Inr url1, ps1)
        \<and> add_session_signature demo_logged_in 0x12345700 ?M demo_parameters = (Inr url2, ps2)
        \<and> dict_get ps1 (lit ''session_signature'') = Some (VStr sig1)
        \<and> dict_get ps2 (lit ''session_signature'') = Some (VStr sig2)
        \<and> take 8 (drop (length (id_hex demo_session)) sig1) = to_hex8_str (drop_bit 8 0x12345678)
        \<and> take 8 (drop (length (id_hex demo_session)) sig2) = to_hex8_str (drop_bit 8 0x12345700)
        \<and> take 8 (drop (length (id_hex demo_session)) sig1)
            \<noteq> take 8 (drop (length (id_hex demo_session)) sig2)"
    by blast
  have lits: "take 8 (drop 8 (lit ''0012D687001234566F9EA320'')) = lit ''00123456''"
    "take 8 (drop 8 (lit ''0012D68700123457F4ED49F4'')) = lit ''00123457''"
    by (simp_all add: lit_def)
  from demo_sign same again later demo_sign_next_window part2 demo_session_fields(1) pre q part3 lits
  show ?thesis by (intro conjI)
qed

section \<open>The stored session\<close>

text \<open>
  Claim C10. A new client holds no session. A login whose handshake response has a status
  other than 200 leaves the client as it was, whatever session it held; when the stored
  session differs after a login, the handshake response had status 200 and the client holds
  the session that the call returned.
\<close>

theorem rejected_login_keeps_session:
  "session (init_client h p r) = None
   \<and> (login render_id seed_of http_get token_bytes c user password_hash = (res, c', [u1, u2])
        \<and> http_get u2 = Inr resp \<and> status_code resp \<noteq> 200
      \<longrightarrow> c' = c \<and> session c' = session c)
   \<and> (login render_id seed_of http_get token_bytes c user password_hash = (res, c', urls)
        \<and> session c' \<noteq> session c
      \<longrightarrow> (\<exists>u1 u2 resp s. urls = [u1, u2] \<and> http_get u2 = Inr resp \<and> status_code resp = 200
              \<and> res = Inr (Some s) \<and> c' = c\<lparr>session := Some s\<rparr>))"
proof (intro conjI impI)
  show "session (init_client h p r) = None"
    by (simp add: init_client_def)
next
  assume a: "login render_id seed_of http_get token_bytes c user password_hash = (res, c', [u1, u2])
        \<and> http_get u2 = Inr resp \<and> status_code resp \<noteq> 200"
  then have l: "login render_id seed_of http_get token_bytes c user password_hash = (res, c', [u1, u2])"
    and g: "http_get u2 = Inr resp" and st: "status_code resp \<noteq> 200"
    by simp_all
  from login_two_requests [OF l] obtain nonce pw where
    n: "get_server_nonce http_get c user = Inr nonce" and
    p: "sha256password (root c) nonce (generate_client_nonce token_bytes) user password_hash = Inr pw" and
    u: "u2 = login_url c user pw (generate_client_nonce token_bytes)"
    by blast
  from l st show "c' = c"
    by (simp add: login_after_handshake [OF n p g [unfolded u]] Let_def)
  then show "session c' = session c" by simp
next
  assume "login render_id seed_of http_get token_bytes c user password_hash = (res, c', urls)
        \<and> session c' \<noteq> session c"
  then show "\<exists>u1 u2 resp s. urls = [u1, u2] \<and> http_get u2 = Inr resp \<and> status_code resp = 200
              \<and> res = Inr (Some s) \<and> c' = c\<lparr>session := Some s\<rparr>"
    by (auto simp: login_def Let_def split: sum.splits if_splits)
qed

theorem rejected_login_keeps_session_witness:
  "(login demo_render_id demo_seed_of (scripted_transport demo_challenge (Inr demo_reject))
      demo_token demo_logged_in demo_user demo_hash =
    (Inr None, demo_logged_in,
     [server_nonce_url demo_logged_in demo_user,
      login_url demo_logged_in demo_user (hex_upper (sha256 demo_login_bytes))
        (generate_client_nonce demo_token)])
    \<and> scripted_transport demo_challenge (Inr demo_reject)
         (login_url demo_logged_in demo_user (hex_upper (sha256 demo_login_bytes))
            (generate_client_nonce demo_token)) = Inr demo_reject
    \<and> status_code demo_reject \<noteq> 200
    \<and> session demo_logged_in = Some demo_session)
   \<and> (login demo_render_id demo_seed_of (scripted_transport demo_challenge (Inr demo_accept))
        demo_token demo_client demo_user demo_hash =
       (Inr (Some demo_session), demo_logged_in,
        [server_nonce_url demo_client demo_user,
         login_url demo_client demo_user (hex_upper (sha256 demo_login_bytes))
           (generate_client_nonce demo_token)])
      \<and> session demo_logged_in \<noteq> session demo_client
      \<and> (\<exists>u1 u2 resp s.
            [server_nonce_url demo_client demo_user,
             login_url demo_client demo_user (hex_upper (sha256 demo_login_bytes))
               (generate_client_nonce demo_token)] = [u1, u2]
          \<and> scripted_transport demo_challenge (Inr demo_accept) u2 = Inr resp
          \<and> status_code resp = 200 \<and> Inr (Some demo_session) = Inr (Some s)
          \<and> demo_logged_in = demo_client\<lparr>session := Some s\<rparr>))"
proof -
  have st: "status_code demo_reject \<noteq> 200"
    by (simp add: demo_reject_def)
  have s1: "session demo_logged_in = Some demo_session"
    by (simp add: demo_logged_in_def)
  have s2: "session demo_logged_in \<noteq> session demo_client"
    by (simp add: demo_logged_in_def demo_client_def init_client_def)
  note t = rejected_login_keeps_session
  from t [THEN conjunct2, THEN conjunct1, rule_format,
      OF conjI [OF demo_relogin_rejected conjI [OF scripted_answer st]]]
  have kept: "demo_logged_in = demo_logged_in \<and> session demo_logged_in = session demo_logged_in" .
  from t [THEN conjunct2, THEN conjunct2, rule_format, OF conjI [OF demo_login_accepted s2]]
  show ?thesis
    using demo_relogin_rejected scripted_answer st s1 demo_login_accepted s2 by blast
qed

end
